theory Spec2Isabelle
  imports Complex_Main "HOL-Library.Word"
begin

section \<open>Scalars, vectors and the matrix interface\<close>

text \<open>
  The renderer computes in single-precision \<^verbatim>\<open>float\<close>. The embedding takes the
  exact value of every arithmetic operation: a \<^verbatim>\<open>float\<close> is a \<^typ>\<open>real\<close>,
  \<^verbatim>\<open>std::pow\<close> is \<open>powr\<close> and \<^verbatim>\<open>std::ceil\<close> is the ceiling. It is the program
  for a camera with \<open>0 < nearClip < farClip\<close> (the constructor sets 0.5 and 48), where
  no operation of the cascade computation divides by zero or raises a negative base.
  Infinities and NaN are outside the embedding. What rounding does to the split
  fractions is the subject of a second reading of the first loop, in which every
  operation rounds to binary32.

  Vectors are tuples of scalars, with the component-wise operations of the
  vector library (glm) written out.
\<close>

type_synonym vec3 = "real \<times> real \<times> real"
type_synonym vec4 = "real \<times> real \<times> real \<times> real"

fun vec3_add :: "vec3 \<Rightarrow> vec3 \<Rightarrow> vec3" where
  "vec3_add (a, b, c) (x, y, z) = (a + x, b + y, c + z)"

fun vec3_sub :: "vec3 \<Rightarrow> vec3 \<Rightarrow> vec3" where
  "vec3_sub (a, b, c) (x, y, z) = (a - x, b - y, c - z)"

fun vec3_scale :: "vec3 \<Rightarrow> real \<Rightarrow> vec3" where
  "vec3_scale (a, b, c) k = (a * k, b * k, c * k)"

fun vec3_div :: "vec3 \<Rightarrow> real \<Rightarrow> vec3" where
  "vec3_div (a, b, c) k = (a / k, b / k, c / k)"

fun vec3_neg :: "vec3 \<Rightarrow> vec3" where
  "vec3_neg (a, b, c) = (- a, - b, - c)"

fun vec3_length :: "vec3 \<Rightarrow> real" where
  "vec3_length (a, b, c) = sqrt (a * a + b * b + c * c)"

definition vec3_splat :: "real \<Rightarrow> vec3" where
  "vec3_splat r = (r, r, r)"

fun vec3_x :: "vec3 \<Rightarrow> real" where
  "vec3_x (a, b, c) = a"

fun vec3_y :: "vec3 \<Rightarrow> real" where
  "vec3_y (a, b, c) = b"

fun vec3_z :: "vec3 \<Rightarrow> real" where
  "vec3_z (a, b, c) = c"

fun vec4_of_vec3 :: "vec3 \<Rightarrow> real \<Rightarrow> vec4" where
  "vec4_of_vec3 (a, b, c) w = (a, b, c, w)"

fun vec3_of_vec4 :: "vec4 \<Rightarrow> vec3" where
  "vec3_of_vec4 (a, b, c, w) = (a, b, c)"

fun vec4_w :: "vec4 \<Rightarrow> real" where
  "vec4_w (a, b, c, w) = w"

fun vec4_div :: "vec4 \<Rightarrow> real \<Rightarrow> vec4" where
  "vec4_div (a, b, c, w) k = (a / k, b / k, c / k, w / k)"

fun vec4_neg :: "vec4 \<Rightarrow> vec4" where
  "vec4_neg (a, b, c, w) = (- a, - b, - c, - w)"

fun vec4_normalize :: "vec4 \<Rightarrow> vec4" where
  "vec4_normalize (a, b, c, w) =
     vec4_div (a, b, c, w) (sqrt (a * a + b * b + c * c + w * w))"

text \<open>
  The 4x4 matrix type and the functions that build and combine matrices belong to the
  vector library, which is not part of the repository. They are parameters of the
  embedding: a matrix is a value of the type variable \<open>'m\<close>, and every function
  that calls the library takes the record \<open>G\<close> of its operations.
  \<^item> \<open>mat4_identity\<close> is \<^verbatim>\<open>glm::mat4(1.0f)\<close>, \<open>mat4_scale\<close> is \<^verbatim>\<open>glm::scale\<close>;
  \<^item> \<open>mat4_mul\<close> and \<open>mat4_apply\<close> are the products matrix * matrix and
    matrix * vec4, \<open>mat4_inverse\<close> is \<^verbatim>\<open>glm::inverse\<close>;
  \<^item> \<open>lookAt\<close> and \<open>ortho\<close> are \<^verbatim>\<open>glm::lookAt\<close> and \<^verbatim>\<open>glm::ortho\<close>.
\<close>

record 'm glm =
  mat4_identity :: "'m"
  mat4_scale :: "'m \<Rightarrow> vec3 \<Rightarrow> 'm"
  mat4_mul :: "'m \<Rightarrow> 'm \<Rightarrow> 'm"
  mat4_inverse :: "'m \<Rightarrow> 'm"
  mat4_apply :: "'m \<Rightarrow> vec4 \<Rightarrow> vec4"
  lookAt :: "vec3 \<Rightarrow> vec3 \<Rightarrow> vec3 \<Rightarrow> 'm"
  ortho :: "real \<Rightarrow> real \<Rightarrow> real \<Rightarrow> real \<Rightarrow> real \<Rightarrow> real \<Rightarrow> 'm"

section \<open>The data model\<close>

text \<open>
  What \<^verbatim>\<open>updateCascades\<close> reads of the camera: \<^verbatim>\<open>getNearClip()\<close>,
  \<^verbatim>\<open>getFarClip()\<close>, \<^verbatim>\<open>matrices.perspective\<close> and \<^verbatim>\<open>matrices.view\<close>.
\<close>

record 'm Camera =
  nearClip :: real
  farClip :: real
  matrices_perspective :: "'m"
  matrices_view :: "'m"

text \<open>
  \<^verbatim>\<open>struct Cascade\<close>. Vulkan handles and the pointer to the descriptor set are
  natural numbers; \<^verbatim>\<open>VkDescriptorImageInfo\<close> is its three members (sampler, image
  view, image layout).
\<close>

record 'm Cascade =
  frameBuffer :: nat
  descriptorSet :: nat
  view :: nat
  splitDepth :: real
  viewProjMatrix :: "'m"
  descriptor :: "nat \<times> nat \<times> nat"

section \<open>The cascade computation\<close>

text \<open>
  The first loop of \<^verbatim>\<open>updateCascades\<close>: the value stored in
  \<^verbatim>\<open>cascadeSplits[i]\<close>. \<open>N\<close> is the macro \<^verbatim>\<open>SHADOW_MAP_CASCADE_COUNT\<close>.
\<close>

definition SHADOW_MAP_CASCADE_COUNT :: nat where
  "SHADOW_MAP_CASCADE_COUNT = 4"

definition cascadeSplit :: "real \<Rightarrow> real \<Rightarrow> real \<Rightarrow> nat \<Rightarrow> nat \<Rightarrow> real" where
  "cascadeSplit nearClip' farClip' lambda N i =
     (let clipRange = farClip' - nearClip';
          minZ = nearClip';
          maxZ = nearClip' + clipRange;
          range = maxZ - minZ;
          ratio = maxZ / minZ;
          p = real (i + 1) / real N;
          logd = minZ * (ratio powr p);
          uniform = minZ + range * p;
          d = lambda * (logd - uniform) + uniform
      in (d - nearClip') / clipRange)"

definition cascadeSplits :: "real \<Rightarrow> real \<Rightarrow> real \<Rightarrow> nat \<Rightarrow> real list" where
  "cascadeSplits nearClip' farClip' lambda N =
     map (cascadeSplit nearClip' farClip' lambda N) [0..<N]"

text \<open>
  The second loop of \<^verbatim>\<open>updateCascades\<close>, one function per step of its body.
  The eight corners of the clip-space cube, in the order of the source.
\<close>

definition ndcCorners :: "vec3 list" where
  "ndcCorners =
     [(-1, 1, -1), (1, 1, -1), (1, -1, -1), (-1, -1, -1),
      (-1, 1, 1), (1, 1, 1), (1, -1, 1), (-1, -1, 1)]"

text \<open>
  \<^verbatim>\<open>invCorner = invCam * vec4(frustumCorners[i], 1.0f); frustumCorners[i] = invCorner / invCorner.w\<close>.
  The loop over the eight corners changes each element on its own: a \<open>map\<close>.
\<close>

definition unproject :: "'m glm \<Rightarrow> 'm \<Rightarrow> vec3 \<Rightarrow> vec3" where
  "unproject G invCam c =
     (let invCorner = mat4_apply G invCam (vec4_of_vec3 c 1)
      in vec3_of_vec4 (vec4_div invCorner (vec4_w invCorner)))"

definition worldCorners :: "'m glm \<Rightarrow> 'm Camera \<Rightarrow> vec3 list" where
  "worldCorners G cam =
     (let invCam = mat4_inverse G (mat4_mul G (matrices_perspective cam) (matrices_view cam))
      in map (unproject G invCam) ndcCorners)"

text \<open>
  The loop \<^verbatim>\<open>for (uint32_t i = 0; i < 4; i++)\<close> that carves the slice, in place:
  first \<^verbatim>\<open>frustumCorners[i + 4]\<close>, then \<^verbatim>\<open>frustumCorners[i]\<close>.
\<close>

definition sliceStep :: "real \<Rightarrow> real \<Rightarrow> nat \<Rightarrow> vec3 list \<Rightarrow> vec3 list" where
  "sliceStep splitDist lastSplitDist i fc =
     (let dist = vec3_sub (fc ! (i + 4)) (fc ! i);
          fc1 = fc[i + 4 := vec3_add (fc ! i) (vec3_scale dist splitDist)]
      in fc1[i := vec3_add (fc1 ! i) (vec3_scale dist lastSplitDist)])"

definition sliceCorners :: "real \<Rightarrow> real \<Rightarrow> vec3 list \<Rightarrow> vec3 list" where
  "sliceCorners splitDist lastSplitDist fc = fold (sliceStep splitDist lastSplitDist) [0..<4] fc"

definition frustumCenter :: "vec3 list \<Rightarrow> vec3" where
  "frustumCenter fc = vec3_div (fold (\<lambda>c acc. vec3_add acc c) fc (0, 0, 0)) 8"

text \<open>
  \<^verbatim>\<open>radius = 0; for each corner: radius = glm::max(radius, glm::length(corner - center))\<close>,
  then \<^verbatim>\<open>radius = std::ceil(radius * 16.0f) / 16.0f\<close>.
\<close>

definition rawRadius :: "vec3 list \<Rightarrow> vec3 \<Rightarrow> real" where
  "rawRadius fc center = fold (\<lambda>c radius. max radius (vec3_length (vec3_sub c center))) fc 0"

definition snapRadius :: "real \<Rightarrow> real" where
  "snapRadius radius = of_int \<lceil>radius * 16\<rceil> / 16"

definition cascadeRadius :: "vec3 list \<Rightarrow> real" where
  "cascadeRadius fc = snapRadius (rawRadius fc (frustumCenter fc))"

text \<open>
  The rest of the body, from the corners of the slice to the matrix: the bounding
  sphere, the extents, the light's view matrix and its orthographic projection.
\<close>

definition sliceViewProj :: "'m glm \<Rightarrow> vec4 \<Rightarrow> vec3 list \<Rightarrow> 'm" where
  "sliceViewProj G lightPos' fc =
     (let center = frustumCenter fc;
          radius = cascadeRadius fc;
          maxExtents = vec3_splat radius;
          minExtents = vec3_neg maxExtents;
          lightDir = vec3_of_vec4 (vec4_normalize (vec4_neg lightPos'));
          lightViewMatrix =
            lookAt G (vec3_sub center (vec3_scale lightDir (- vec3_z minExtents))) center (0, 1, 0);
          lightOrthoMatrix =
            ortho G (vec3_x minExtents) (vec3_x maxExtents) (vec3_y minExtents) (vec3_y maxExtents)
              0 (vec3_z maxExtents - vec3_z minExtents)
      in mat4_mul G lightOrthoMatrix lightViewMatrix)"

text \<open>
  The matrix of one cascade, as the body of the loop computes it from
  \<open>lastSplitDist\<close> and \<open>splitDist\<close>, and the two assignments that end the body.
\<close>

definition cascadeViewProj :: "'m glm \<Rightarrow> 'm Camera \<Rightarrow> vec4 \<Rightarrow> real \<Rightarrow> real \<Rightarrow> 'm" where
  "cascadeViewProj G cam lightPos' lastSplitDist splitDist =
     sliceViewProj G lightPos' (sliceCorners splitDist lastSplitDist (worldCorners G cam))"

definition cascadeStore ::
  "'m glm \<Rightarrow> 'm Camera \<Rightarrow> vec4 \<Rightarrow> real \<Rightarrow> real \<Rightarrow> real \<Rightarrow> 'm Cascade \<Rightarrow> 'm Cascade" where
  "cascadeStore G cam lightPos' clipRange lastSplitDist splitDist c =
     c\<lparr>splitDepth := (nearClip cam + splitDist * clipRange) * (- 1),
       viewProjMatrix := cascadeViewProj G cam lightPos' lastSplitDist splitDist\<rparr>"

text \<open>
  The loop over the cascades. The inner loops of the source declare counters of
  their own, so \<^verbatim>\<open>cascades[i]\<close> and \<^verbatim>\<open>cascadeSplits[i]\<close> after them read the counter of
  this loop. \<open>lastSplitDist\<close> is the accumulator; the array of cascades is a list,
  written by index.
\<close>

fun cascadeLoop ::
  "'m glm \<Rightarrow> 'm Camera \<Rightarrow> vec4 \<Rightarrow> real \<Rightarrow> real list \<Rightarrow> nat list \<Rightarrow> real \<Rightarrow>
   'm Cascade list \<Rightarrow> 'm Cascade list" where
  "cascadeLoop G cam lightPos' clipRange splits [] lastSplitDist cs = cs"
| "cascadeLoop G cam lightPos' clipRange splits (i # is) lastSplitDist cs =
     (let splitDist = splits ! i;
          cs' = cs[i := cascadeStore G cam lightPos' clipRange lastSplitDist splitDist (cs ! i)]
      in cascadeLoop G cam lightPos' clipRange splits is (splits ! i) cs')"

section \<open>The recorded command stream\<close>

text \<open>
  A command buffer is the list of the commands recorded into it, in order. The
  pipelines, pipeline layouts, descriptor sets and drawable objects are fixed members of
  the application, named as in the source. \<^verbatim>\<open>models.X.draw\<close> and \<^verbatim>\<open>heightMap->draw\<close>
  record the draw of an object whose geometry the asset loader owns, and \<^verbatim>\<open>drawUI\<close>
  records the overlay: each is one opaque command.
\<close>

datatype SceneDrawType = sceneDrawTypeRefract | sceneDrawTypeReflect | sceneDrawTypeDisplay

datatype pipeline_ref =
  pipelines_debug | pipelines_mirror | pipelines_terrain | pipelines_sky | pipelines_depthpass
  | cascadeDebug_pipeline

datatype layout_ref =
  pipelineLayouts_debug | pipelineLayouts_textured | pipelineLayouts_terrain | pipelineLayouts_sky
  | depthPass_pipelineLayout | cascadeDebug_pipelineLayout

datatype dset_ref =
  descriptorSets_waterplane | descriptorSets_debugquad | descriptorSets_terrain
  | descriptorSets_skysphere | depthPass_descriptorSet | cascadeDebug_descriptorSet

datatype drawable = models_skysphere | models_plane | heightMap

text \<open>\<^verbatim>\<open>struct PushConst\<close> of \<^verbatim>\<open>drawScene\<close> and \<^verbatim>\<open>struct CascadePushConstBlock\<close>.\<close>

record 'm PushConst =
  scale :: "'m"
  clipPlane :: vec4
  shadows :: "32 word"

record CascadePushConstBlock =
  position :: vec4
  cascadeIndex :: "32 word"

datatype 'm push_data =
  PushScene "'m PushConst" | PushCascade CascadePushConstBlock | PushU32 "32 word"

datatype clear_value = ClearColor "real \<times> real \<times> real \<times> real" | ClearDepthStencil real nat

text \<open>
  \<open>CmdSetViewport x y width height minDepth maxDepth\<close>, \<open>CmdSetScissor x y width height\<close>,
  \<open>CmdBeginRenderPass renderPass framebuffer width height clearValues\<close> (the render
  area's extent; its offset is zero at every call), \<open>Draw vertexCount instanceCount
  firstVertex firstInstance\<close>. The viewport that \<^verbatim>\<open>vks::initializers::viewport\<close>
  builds from a width, a height and the two depths has its origin at zero.
\<close>

datatype 'm command =
  CbBegin
  | CbEnd
  | CmdSetViewport real real real real real real
  | CmdSetScissor int int int int
  | CmdBeginRenderPass nat nat int int "clear_value list"
  | CmdEndRenderPass
  | BindPipeline pipeline_ref
  | BindDescriptorSets layout_ref "dset_ref list" nat
  | UpdatePushConstant layout_ref nat "'m push_data"
  | DrawObject drawable
  | Draw nat nat nat nat
  | DrawUI

section \<open>The application state\<close>

text \<open>
  The members of \<^verbatim>\<open>VulkanExample\<close> (and of its base class) that the modelled functions
  read or write. \<^verbatim>\<open>frameBuffers\<close>, \<^verbatim>\<open>renderPass\<close>, \<^verbatim>\<open>width\<close>, \<^verbatim>\<open>height\<close> and
  \<^verbatim>\<open>defaultClearColor\<close> belong to the swapchain side of the base class. The uniform
  buffer objects and their mapped memory are not part of the state.
\<close>

record 'm VulkanExample =
  camera :: "'m Camera"
  lightPos :: vec4
  cascadeSplitLambda :: real
  cascades :: "'m Cascade list"
  debugDisplayReflection :: bool
  debugDisplayRefraction :: bool
  cascadeDebug_enabled :: bool
  cascadeDebug_cascadeIndex :: int
  offscreenPass_width :: int
  offscreenPass_height :: int
  offscreenPass_renderPass :: nat
  offscreenPass_refraction_frameBuffer :: nat
  offscreenPass_reflection_frameBuffer :: nat
  depthPass_renderPass :: nat
  renderPass :: nat
  frameBuffers :: "nat list"
  width :: int
  height :: int
  defaultClearColor :: "real \<times> real \<times> real \<times> real"
  commandBuffers :: "'m command list list"

text \<open>\<^verbatim>\<open>updateCascades\<close>: both loops, on the state.\<close>

definition updateCascades :: "'m glm \<Rightarrow> nat \<Rightarrow> 'm VulkanExample \<Rightarrow> 'm VulkanExample" where
  "updateCascades G N s =
     (let nearClip' = nearClip (camera s);
          farClip' = farClip (camera s);
          clipRange = farClip' - nearClip';
          splits = cascadeSplits nearClip' farClip' (cascadeSplitLambda s) N
      in s\<lparr>cascades :=
             cascadeLoop G (camera s) (lightPos s) clipRange splits [0..<N] 0 (cascades s)\<rparr>)"

text \<open>
  \<^verbatim>\<open>updateUniformBuffers\<close> assigns \<^verbatim>\<open>lightPos\<close> (the last of its four assignments
  stands) and copies into the uniform buffers, which are not part of the state.
\<close>

definition updateUniformBuffers :: "'m VulkanExample \<Rightarrow> 'm VulkanExample" where
  "updateUniformBuffers s = s\<lparr>lightPos := (20, -10, 20, 0)\<rparr>"

section \<open>Recording a frame\<close>

text \<open>
  \<^verbatim>\<open>drawScene\<close>: the push-constant block starts from the member initialisers, the
  \<^verbatim>\<open>if\<close> mirrors it for the reflection, and the \<^verbatim>\<open>switch\<close> has the two cases of the
  source and no default.
\<close>

definition scenePushConst :: "'m glm \<Rightarrow> SceneDrawType \<Rightarrow> 'm PushConst" where
  "scenePushConst G drawType =
     (let pushConst0 = \<lparr>scale = mat4_identity G, clipPlane = (0, 0, 0, 0), shadows = 1\<rparr>;
          pushConst1 =
            (if drawType = sceneDrawTypeReflect
             then pushConst0\<lparr>scale := mat4_scale G (scale pushConst0) (1, -1, 1)\<rparr>
             else pushConst0)
      in case drawType of
           sceneDrawTypeRefract \<Rightarrow> pushConst1\<lparr>clipPlane := (0, 1, 0, 0), shadows := 0\<rparr>
         | sceneDrawTypeReflect \<Rightarrow> pushConst1\<lparr>clipPlane := (0, 1, 0, 0), shadows := 0\<rparr>
         | sceneDrawTypeDisplay \<Rightarrow> pushConst1)"

definition drawScene :: "'m glm \<Rightarrow> SceneDrawType \<Rightarrow> 'm command list" where
  "drawScene G drawType =
     (let pushConst = scenePushConst G drawType
      in [BindPipeline pipelines_sky,
          BindDescriptorSets pipelineLayouts_sky [descriptorSets_skysphere] 0,
          UpdatePushConstant pipelineLayouts_sky 0 (PushScene pushConst),
          DrawObject models_skysphere,
          BindPipeline pipelines_terrain,
          BindDescriptorSets pipelineLayouts_terrain [descriptorSets_terrain] 0,
          UpdatePushConstant pipelineLayouts_terrain 0 (PushScene pushConst),
          DrawObject heightMap])"

definition drawShadowCasters :: "32 word \<Rightarrow> 'm command list" where
  "drawShadowCasters cascadeIndex' =
     [BindPipeline pipelines_depthpass,
      BindDescriptorSets depthPass_pipelineLayout [depthPass_descriptorSet] 0,
      UpdatePushConstant depthPass_pipelineLayout 0
        (PushCascade \<lparr>position = (0, 0, 0, 0), cascadeIndex = cascadeIndex'\<rparr>),
      DrawObject heightMap]"

text \<open>The value of \<^verbatim>\<open>SHADOWMAP_DIM\<close> on every platform but Android (2048 there).\<close>

definition SHADOWMAP_DIM :: int where
  "SHADOWMAP_DIM = 4096"

text \<open>\<^verbatim>\<open>drawCSM\<close>: viewport and scissor once, then one render pass per cascade.\<close>

definition drawCSM_pass :: "'m VulkanExample \<Rightarrow> nat \<Rightarrow> 'm command list" where
  "drawCSM_pass s j =
     CmdBeginRenderPass (depthPass_renderPass s) (frameBuffer (cascades s ! j))
       SHADOWMAP_DIM SHADOWMAP_DIM [ClearDepthStencil 1 0]
     # drawShadowCasters (of_nat j) @ [CmdEndRenderPass]"

definition drawCSM :: "nat \<Rightarrow> 'm VulkanExample \<Rightarrow> 'm command list" where
  "drawCSM N s =
     [CmdSetViewport 0 0 (of_int SHADOWMAP_DIM) (of_int SHADOWMAP_DIM) 0 1,
      CmdSetScissor 0 0 SHADOWMAP_DIM SHADOWMAP_DIM]
     @ concat (map (drawCSM_pass s) [0..<N])"

text \<open>
  The optional draws of the main pass, each behind its own flag.
  \<^verbatim>\<open>cascadeDebug.cascadeIndex\<close> is an \<^verbatim>\<open>int32_t\<close> stored into a \<^verbatim>\<open>uint32_t\<close>.
\<close>

definition debugDraws :: "'m VulkanExample \<Rightarrow> 'm command list" where
  "debugDraws s =
     (if debugDisplayReflection s
      then [BindDescriptorSets pipelineLayouts_textured [descriptorSets_debugquad] 0,
            BindPipeline pipelines_debug,
            UpdatePushConstant pipelineLayouts_debug 0 (PushU32 0),
            Draw 6 1 0 0]
      else [])
     @ (if debugDisplayRefraction s
        then [BindDescriptorSets pipelineLayouts_textured [descriptorSets_debugquad] 0,
              BindPipeline pipelines_debug,
              UpdatePushConstant pipelineLayouts_debug 0 (PushU32 1),
              Draw 6 1 0 0]
        else [])
     @ (if cascadeDebug_enabled s
        then [BindDescriptorSets cascadeDebug_pipelineLayout [cascadeDebug_descriptorSet] 0,
              BindPipeline cascadeDebug_pipeline,
              UpdatePushConstant cascadeDebug_pipelineLayout 0
                (PushCascade \<lparr>position = (0, 0, 0, 0),
                               cascadeIndex = word_of_int (cascadeDebug_cascadeIndex s)\<rparr>),
              Draw 6 1 0 0]
        else [])"

text \<open>
  The refraction and the reflection blocks of \<^verbatim>\<open>buildCommandBuffers\<close> differ in the
  framebuffer and the draw type only: the commands between begin and end, and the
  whole pass.
\<close>

definition offscreenBody :: "'m glm \<Rightarrow> 'm VulkanExample \<Rightarrow> SceneDrawType \<Rightarrow> 'm command list" where
  "offscreenBody G s drawType =
     [CmdSetViewport 0 0 (of_int (offscreenPass_width s)) (of_int (offscreenPass_height s)) 0 1,
      CmdSetScissor 0 0 (offscreenPass_width s) (offscreenPass_height s)]
     @ drawScene G drawType"

definition offscreenStage :: "'m glm \<Rightarrow> 'm VulkanExample \<Rightarrow> nat \<Rightarrow> SceneDrawType \<Rightarrow> 'm command list" where
  "offscreenStage G s fb drawType =
     CmdBeginRenderPass (offscreenPass_renderPass s) fb
       (offscreenPass_width s) (offscreenPass_height s)
       [ClearColor (0, 0, 0, 0), ClearDepthStencil 1 0]
     # offscreenBody G s drawType @ [CmdEndRenderPass]"

text \<open>The block of the main pass, on the swapchain framebuffer \<open>i\<close>.\<close>

definition mainBody :: "'m glm \<Rightarrow> 'm VulkanExample \<Rightarrow> 'm command list" where
  "mainBody G s =
     [CmdSetViewport 0 0 (of_int (width s)) (of_int (height s)) 0 1,
      CmdSetScissor 0 0 (width s) (height s)]
     @ drawScene G sceneDrawTypeDisplay
     @ [BindDescriptorSets pipelineLayouts_textured [descriptorSets_waterplane] 0,
        BindPipeline pipelines_mirror,
        DrawObject models_plane]
     @ debugDraws s
     @ [DrawUI]"

definition mainStage :: "'m glm \<Rightarrow> 'm VulkanExample \<Rightarrow> nat \<Rightarrow> 'm command list" where
  "mainStage G s i =
     CmdBeginRenderPass (renderPass s) (frameBuffers s ! i) (width s) (height s)
       [ClearColor (defaultClearColor s), ClearDepthStencil 1 0]
     # mainBody G s @ [CmdEndRenderPass]"

text \<open>
  The body of the loop of \<^verbatim>\<open>buildCommandBuffers\<close> for the command buffer \<open>i\<close>,
  and the loop over all of them: every buffer is recorded anew.
\<close>

definition recordFrame :: "'m glm \<Rightarrow> nat \<Rightarrow> 'm VulkanExample \<Rightarrow> nat \<Rightarrow> 'm command list" where
  "recordFrame G N s i =
     [CbBegin]
     @ drawCSM N s
     @ offscreenStage G s (offscreenPass_refraction_frameBuffer s) sceneDrawTypeRefract
     @ offscreenStage G s (offscreenPass_reflection_frameBuffer s) sceneDrawTypeReflect
     @ mainStage G s i
     @ [CbEnd]"

definition buildCommandBuffers :: "'m glm \<Rightarrow> nat \<Rightarrow> 'm VulkanExample \<Rightarrow> 'm VulkanExample" where
  "buildCommandBuffers G N s =
     s\<lparr>commandBuffers := map (recordFrame G N s) [0..<length (commandBuffers s)]\<rparr>"

section \<open>The debug toggles of the overlay\<close>

text \<open>
  \<^verbatim>\<open>OnUpdateUIOverlay\<close> asks the overlay for each widget in turn. The overlay belongs
  to the base framework; what one call of a widget did is an input: \<open>None\<close> when
  the call returned false and left the variable alone, \<open>Some v\<close> when it stored
  \<open>v\<close> and returned true. \<open>header_Debugging\<close> is what \<^verbatim>\<open>overlay->header("Debugging")\<close>
  returned. The widgets under "Terrain layers" write only the terrain uniform data, which
  is not part of the state.
\<close>

record ui_input =
  header_Debugging :: bool
  checkBox_Display_reflection :: "bool option"
  checkBox_Display_refraction :: "bool option"
  checkBox_Display_cascades :: "bool option"
  sliderInt_Cascade :: "int option"
  sliderFloat_Split_lambda :: "real option"

definition OnUpdateUIOverlay ::
  "'m glm \<Rightarrow> nat \<Rightarrow> ui_input \<Rightarrow> 'm VulkanExample \<Rightarrow> 'm VulkanExample" where
  "OnUpdateUIOverlay G N ui s =
     (if header_Debugging ui then
        (let s1 = (case checkBox_Display_reflection ui of
                     None \<Rightarrow> s
                   | Some v \<Rightarrow> buildCommandBuffers G N (s\<lparr>debugDisplayReflection := v\<rparr>));
             s2 = (case checkBox_Display_refraction ui of
                     None \<Rightarrow> s1
                   | Some v \<Rightarrow> buildCommandBuffers G N (s1\<lparr>debugDisplayRefraction := v\<rparr>));
             s3 = (case checkBox_Display_cascades ui of
                     None \<Rightarrow> s2
                   | Some v \<Rightarrow> buildCommandBuffers G N (s2\<lparr>cascadeDebug_enabled := v\<rparr>));
             s4 = (if cascadeDebug_enabled s3 then
                     (case sliderInt_Cascade ui of
                        None \<Rightarrow> s3
                      | Some v \<Rightarrow> buildCommandBuffers G N (s3\<lparr>cascadeDebug_cascadeIndex := v\<rparr>))
                   else s3)
         in (case sliderFloat_Split_lambda ui of
               None \<Rightarrow> s4
             | Some v \<Rightarrow> updateUniformBuffers (updateCascades G N (s4\<lparr>cascadeSplitLambda := v\<rparr>))))
      else s)"

section \<open>Reading a command stream\<close>

text \<open>
  The render passes of a stream, in order: for each, the framebuffer it was begun on
  and the commands recorded between its begin and its end. \<open>cur\<close> is the pass that
  is open, if any.
\<close>

fun passes_from ::
  "(nat \<times> 'm command list) option \<Rightarrow> 'm command list \<Rightarrow> (nat \<times> 'm command list) list" where
  "passes_from cur [] = []"
| "passes_from cur (CmdBeginRenderPass rp fb w h cv # cs) = passes_from (Some (fb, [])) cs"
| "passes_from None (CmdEndRenderPass # cs) = passes_from None cs"
| "passes_from (Some (fb, body)) (CmdEndRenderPass # cs) = (fb, body) # passes_from None cs"
| "passes_from None (c # cs) = passes_from None cs"
| "passes_from (Some (fb, body)) (c # cs) = passes_from (Some (fb, body @ [c])) cs"

definition passes :: "'m command list \<Rightarrow> (nat \<times> 'm command list) list" where
  "passes cs = passes_from None cs"

text \<open>The commands that draw; the full-screen quad is the draw of six vertices.\<close>

fun is_draw :: "'m command \<Rightarrow> bool" where
  "is_draw (DrawObject d) = True"
| "is_draw (Draw vc ic fv fi) = True"
| "is_draw DrawUI = True"
| "is_draw c = False"

fun is_pass_boundary :: "'m command \<Rightarrow> bool" where
  "is_pass_boundary (CmdBeginRenderPass rp fb w h cv) = True"
| "is_pass_boundary CmdEndRenderPass = True"
| "is_pass_boundary c = False"

definition quadDraws :: "'m command list \<Rightarrow> nat" where
  "quadDraws cs = length (filter (\<lambda>c. c = Draw 6 1 0 0) cs)"

definition enabledToggles :: "'m VulkanExample \<Rightarrow> nat" where
  "enabledToggles s =
     (if debugDisplayReflection s then 1 else 0)
     + (if debugDisplayRefraction s then 1 else 0)
     + (if cascadeDebug_enabled s then 1 else 0)"

text \<open>
  The draws of a stream, each with the push-constant block that was pushed last before
  it (\<open>cur\<close>, none at the start).
\<close>

fun drawsUnder ::
  "'m push_data option \<Rightarrow> 'm command list \<Rightarrow> ('m command \<times> 'm push_data option) list" where
  "drawsUnder cur [] = []"
| "drawsUnder cur (UpdatePushConstant l off d # cs) = drawsUnder (Some d) cs"
| "drawsUnder cur (c # cs) = (if is_draw c then (c, cur) # drawsUnder cur cs else drawsUnder cur cs)"

section \<open>Creating the render targets\<close>

text \<open>
  \<^verbatim>\<open>prepareOffscreen\<close>, \<^verbatim>\<open>createFrameBuffer\<close> and \<^verbatim>\<open>prepareCSM\<close> call the graphics
  driver in a fixed order. What the driver answers is an input: whether the physical
  device has a depth format (\<^verbatim>\<open>vks::tools::getSupportedDepthFormat\<close>), and the
  \<^verbatim>\<open>VkResult\<close> of each creating call, by the call and the object it fills. A setup
  function maps the list of the calls made so far to the longer list, or to the
  reason it aborted.
\<close>

datatype gpu_call =
  getSupportedDepthFormat | vkCreateRenderPass | vkCreateSampler | vkCreateImage
  | vkAllocateMemory | vkBindImageMemory | vkCreateImageView | vkCreateFramebuffer

datatype target =
  offscreenPass | offscreenPass_refraction | offscreenPass_reflection | offscreenPass_depth
  | depthPass | depth | cascade nat

record driver =
  depthFormatSupported :: bool
  vkResult :: "gpu_call \<Rightarrow> target \<Rightarrow> int"

definition VK_SUCCESS :: int where
  "VK_SUCCESS = 0"

datatype fatal = CheckFailed gpu_call target int | AssertionFailed string

type_synonym trace = "(gpu_call \<times> target) list"

text \<open>Statements in sequence: the first one that aborts ends the function.\<close>

fun seqs :: "('s \<Rightarrow> 'e + 's) list \<Rightarrow> 's \<Rightarrow> 'e + 's" where
  "seqs [] s = Inr s"
| "seqs (f # fs) s = (case f s of Inl e \<Rightarrow> Inl e | Inr s' \<Rightarrow> seqs fs s')"

text \<open>
  Modelled from the spec: the macro \<^verbatim>\<open>VK_CHECK_RESULT\<close> belongs to the base framework,
  which is not among the sources. By section 7 of the specification a failed creation
  aborts at once with the failing operation identified: a result other than
  \<^verbatim>\<open>VK_SUCCESS\<close> ends the setup with the call, its object and the result.
\<close>

definition VK_CHECK_RESULT :: "driver \<Rightarrow> gpu_call \<Rightarrow> target \<Rightarrow> trace \<Rightarrow> fatal + trace" where
  "VK_CHECK_RESULT drv f tg tr =
     (let res = vkResult drv f tg
      in if res \<noteq> VK_SUCCESS then Inl (CheckFailed f tg res) else Inr (tr @ [(f, tg)]))"

text \<open>
  \<^verbatim>\<open>validDepthFormat = getSupportedDepthFormat(...); assert(validDepthFormat);\<close> of
  \<^verbatim>\<open>prepareOffscreen\<close>. The standard \<^verbatim>\<open>assert\<close> aborts with the text of its
  expression, and is empty when the build defines \<^verbatim>\<open>NDEBUG\<close>.
\<close>

definition assert_validDepthFormat :: "bool \<Rightarrow> driver \<Rightarrow> target \<Rightarrow> trace \<Rightarrow> fatal + trace" where
  "assert_validDepthFormat NDEBUG drv tg tr =
     (let validDepthFormat = depthFormatSupported drv
      in if \<not> NDEBUG \<and> \<not> validDepthFormat then Inl (AssertionFailed ''validDepthFormat'')
         else Inr (tr @ [(getSupportedDepthFormat, tg)]))"

text \<open>
  \<^verbatim>\<open>vks::tools::getSupportedDepthFormat(physicalDevice, &depthFormat);\<close> of
  \<^verbatim>\<open>prepareCSM\<close>: the value the call returns is dropped.
\<close>

definition unchecked_getSupportedDepthFormat :: "driver \<Rightarrow> target \<Rightarrow> trace \<Rightarrow> fatal + trace" where
  "unchecked_getSupportedDepthFormat drv tg tr =
     (let dropped = depthFormatSupported drv in Inr (tr @ [(getSupportedDepthFormat, tg)]))"

definition createFrameBuffer :: "driver \<Rightarrow> target \<Rightarrow> trace \<Rightarrow> fatal + trace" where
  "createFrameBuffer drv tg =
     seqs [VK_CHECK_RESULT drv vkCreateImage tg,
           VK_CHECK_RESULT drv vkAllocateMemory tg,
           VK_CHECK_RESULT drv vkBindImageMemory tg,
           VK_CHECK_RESULT drv vkCreateImageView tg]"

definition prepareOffscreen :: "bool \<Rightarrow> driver \<Rightarrow> trace \<Rightarrow> fatal + trace" where
  "prepareOffscreen NDEBUG drv =
     seqs [assert_validDepthFormat NDEBUG drv offscreenPass,
           VK_CHECK_RESULT drv vkCreateRenderPass offscreenPass,
           VK_CHECK_RESULT drv vkCreateSampler offscreenPass,
           createFrameBuffer drv offscreenPass_refraction,
           createFrameBuffer drv offscreenPass_reflection,
           VK_CHECK_RESULT drv vkCreateImage offscreenPass_depth,
           VK_CHECK_RESULT drv vkAllocateMemory offscreenPass_depth,
           VK_CHECK_RESULT drv vkBindImageMemory offscreenPass_depth,
           VK_CHECK_RESULT drv vkCreateImageView offscreenPass_depth,
           VK_CHECK_RESULT drv vkCreateFramebuffer offscreenPass_refraction,
           VK_CHECK_RESULT drv vkCreateFramebuffer offscreenPass_reflection]"

definition prepareCSM :: "nat \<Rightarrow> driver \<Rightarrow> trace \<Rightarrow> fatal + trace" where
  "prepareCSM N drv =
     seqs ([unchecked_getSupportedDepthFormat drv depthPass,
            VK_CHECK_RESULT drv vkCreateRenderPass depthPass,
            VK_CHECK_RESULT drv vkCreateImage depth,
            VK_CHECK_RESULT drv vkAllocateMemory depth,
            VK_CHECK_RESULT drv vkBindImageMemory depth,
            VK_CHECK_RESULT drv vkCreateImageView depth]
           @ concat (map (\<lambda>i. [VK_CHECK_RESULT drv vkCreateImageView (cascade i),
                                 VK_CHECK_RESULT drv vkCreateFramebuffer (cascade i)]) [0..<N])
           @ [VK_CHECK_RESULT drv vkCreateSampler depth])"

text \<open>
  \<^verbatim>\<open>prepare\<close> calls \<^verbatim>\<open>prepareOffscreen()\<close> and then \<^verbatim>\<open>prepareCSM()\<close>, on the same
  device.
\<close>

definition prepareTargets :: "bool \<Rightarrow> nat \<Rightarrow> driver \<Rightarrow> trace \<Rightarrow> fatal + trace" where
  "prepareTargets NDEBUG N drv = seqs [prepareOffscreen NDEBUG drv, prepareCSM N drv]"

text \<open>A device without a usable depth format, on which every creating call succeeds.\<close>

definition noDepthFormat :: driver where
  "noDepthFormat = \<lparr>depthFormatSupported = False, vkResult = (\<lambda>f tg. VK_SUCCESS)\<rparr>"

section \<open>The first loop in binary32\<close>

text \<open>
  A finite binary32 number is a multiple of the unit in the last place of its binade,
  with a significand below \<open>2 ^ 24\<close>; an operation returns the nearest such number to
  its exact result, the one with the even significand at a tie. \<open>ulp32 x\<close> is the unit
  for the binade of \<open>x\<close>, found by halving or doubling \<open>x\<close> into \<open>[1, 2)\<close>; below
  \<open>2 ^ -126\<close> the unit stays \<open>2 ^ -149\<close>. Results beyond the largest finite number are
  outside this reading.
\<close>

definition round_even :: "real \<Rightarrow> int" where
  "round_even x =
     (let f = \<lfloor>x\<rfloor>; r = x - of_int f
      in if r < 1 / 2 then f else if 1 / 2 < r then f + 1 else if even f then f else f + 1)"

fun ulp_down :: "nat \<Rightarrow> real \<Rightarrow> real" where
  "ulp_down 0 x = 1 / 8388608"
| "ulp_down (Suc n) x = (if x < 2 then 1 / 8388608 else 2 * ulp_down n (x / 2))"

fun ulp_up :: "nat \<Rightarrow> real \<Rightarrow> real" where
  "ulp_up 0 x = 1 / 8388608"
| "ulp_up (Suc n) x = (if 1 \<le> x then 1 / 8388608 else ulp_up n (x * 2) / 2)"

definition ulp32 :: "real \<Rightarrow> real" where
  "ulp32 x = (if 1 \<le> \<bar>x\<bar> then ulp_down 127 \<bar>x\<bar> else ulp_up 126 \<bar>x\<bar>)"

definition round32 :: "real \<Rightarrow> real" where
  "round32 x = of_int (round_even (x / ulp32 x)) * ulp32 x"

text \<open>
  The operations on \<^verbatim>\<open>float\<close>. The four of the language round their exact result.
  \<^verbatim>\<open>std::pow\<close> belongs to the C library; it is taken as rounding its exact result too.
  At the exponent 1 that is its first argument, as for every implementation of the
  function; the last pass of the loop, with \<open>p = 1\<close>, meets no other exponent.
\<close>

definition fadd :: "real \<Rightarrow> real \<Rightarrow> real" where
  "fadd a b = round32 (a + b)"

definition fsub :: "real \<Rightarrow> real \<Rightarrow> real" where
  "fsub a b = round32 (a - b)"

definition fmul :: "real \<Rightarrow> real \<Rightarrow> real" where
  "fmul a b = round32 (a * b)"

definition fdiv :: "real \<Rightarrow> real \<Rightarrow> real" where
  "fdiv a b = round32 (a / b)"

definition fpow :: "real \<Rightarrow> real \<Rightarrow> real" where
  "fpow a b = round32 (a powr b)"

text \<open>
  The first loop of \<^verbatim>\<open>updateCascades\<close> again, statement by statement, every
  operation rounded; \<^verbatim>\<open>i + 1\<close> and the count are converted to \<^verbatim>\<open>float\<close> before the
  division.
\<close>

definition cascadeSplit_f32 :: "real \<Rightarrow> real \<Rightarrow> real \<Rightarrow> nat \<Rightarrow> nat \<Rightarrow> real" where
  "cascadeSplit_f32 nearClip' farClip' lambda N i =
     (let clipRange = fsub farClip' nearClip';
          minZ = nearClip';
          maxZ = fadd nearClip' clipRange;
          range = fsub maxZ minZ;
          ratio = fdiv maxZ minZ;
          p = fdiv (round32 (real (i + 1))) (round32 (real N));
          logd = fmul minZ (fpow ratio p);
          uniform = fadd minZ (fmul range p);
          d = fadd (fmul lambda (fsub logd uniform)) uniform
      in fdiv (fsub d nearClip') clipRange)"


section \<open>A camera with the zero-to-one projection\<close>

text \<open>
  \<^verbatim>\<open>updateCascades\<close> reads the projection and the view matrix from the camera; the
  camera class belongs to the base framework, outside the source file. The source
  defines \<^verbatim>\<open>GLM_FORCE_DEPTH_ZERO_TO_ONE\<close> before it includes the vector library and
  the base class, so the projection that \<^verbatim>\<open>camera.setPerspective\<close> builds with
  \<^verbatim>\<open>glm::perspective\<close> maps the near plane to the clip depth 0 and the far plane to 1,
  the depth range of Vulkan.
  To follow the frustum corners through such a projection, a matrix is here the linear
  map it stands for, paired with the map of its inverse: a product composes, the inverse
  swaps the pair. \<^verbatim>\<open>glm::scale (m, v)\<close> is \<open>m\<close> times the scaling by \<open>v\<close>. The
  matrices of the light (\<open>lookAt\<close>, \<open>ortho\<close>), which the corners of a slice do not
  depend on, are left as the identity in this instance.
\<close>

type_synonym mat4_map = "(vec4 \<Rightarrow> vec4) \<times> (vec4 \<Rightarrow> vec4)"

fun scale_map :: "vec3 \<Rightarrow> vec4 \<Rightarrow> vec4" where
  "scale_map (a, b, c) (x, y, z, w) = (a * x, b * y, c * z, w)"

fun unscale_map :: "vec3 \<Rightarrow> vec4 \<Rightarrow> vec4" where
  "unscale_map (a, b, c) (x, y, z, w) = (x / a, y / b, z / c, w)"

definition glmMaps :: "mat4_map glm" where
  "glmMaps =
     \<lparr>mat4_identity = (id, id),
      mat4_scale = (\<lambda>m v. (fst m \<circ> scale_map v, unscale_map v \<circ> snd m)),
      mat4_mul = (\<lambda>a b. (fst a \<circ> fst b, snd b \<circ> snd a)),
      mat4_inverse = (\<lambda>m. (snd m, fst m)),
      mat4_apply = (\<lambda>m v. fst m v),
      lookAt = (\<lambda>eye center up. (id, id)),
      ortho = (\<lambda>l r b t n f. (id, id))\<rparr>"

text \<open>
  The right-handed perspective projection with clip depth from 0 to 1: the rows of the
  library's matrix applied to a vector, and the inverse map. The camera looks down the
  negative z axis; a point at the depth \<open>d\<close> in front of it has \<open>z = - d\<close>.
\<close>

fun perspective_map :: "real \<Rightarrow> real \<Rightarrow> real \<Rightarrow> real \<Rightarrow> vec4 \<Rightarrow> vec4" where
  "perspective_map tanHalfFovy aspect zNear zFar (x, y, z, w) =
     (x / (aspect * tanHalfFovy), y / tanHalfFovy,
      zFar / (zNear - zFar) * z - (zFar * zNear) / (zFar - zNear) * w, - z)"

fun unperspective_map :: "real \<Rightarrow> real \<Rightarrow> real \<Rightarrow> real \<Rightarrow> vec4 \<Rightarrow> vec4" where
  "unperspective_map tanHalfFovy aspect zNear zFar (cx, cy, cz, cw) =
     (cx * (aspect * tanHalfFovy), cy * tanHalfFovy, - cw,
      (cz + zFar / (zNear - zFar) * cw) * (- ((zFar - zNear) / (zFar * zNear))))"

definition perspectiveRH_ZO :: "real \<Rightarrow> real \<Rightarrow> real \<Rightarrow> real \<Rightarrow> mat4_map" where
  "perspectiveRH_ZO fovy aspect zNear zFar =
     (perspective_map (tan (fovy / 2)) aspect zNear zFar,
      unperspective_map (tan (fovy / 2)) aspect zNear zFar)"

text \<open>
  The camera of the constructor: 45 degrees, the aspect of a 1280 by 720 window, the
  clip planes 0.5 and 48; placed at the origin without rotation, so that world space is
  view space.
\<close>

definition cameraZO :: "mat4_map Camera" where
  "cameraZO =
     \<lparr>nearClip = 1 / 2, farClip = 48,
      matrices_perspective = perspectiveRH_ZO (pi / 4) (16 / 9) (1 / 2) 48,
      matrices_view = (id, id)\<rparr>"

text \<open>The depth of a world-space point in front of the camera.\<close>

definition viewDepth :: "'m glm \<Rightarrow> 'm Camera \<Rightarrow> vec3 \<Rightarrow> real" where
  "viewDepth G cam p =
     - vec3_z (vec3_of_vec4 (mat4_apply G (matrices_view cam) (vec4_of_vec3 p 1)))"

text \<open>
  The application with that camera: the lambda and the light of the constructor and four
  cascades, nothing stored in them yet.
\<close>

definition exampleZO :: "mat4_map VulkanExample" where
  "exampleZO =
     \<lparr>camera = cameraZO,
      lightPos = (- 400, - 300, - 300, 0),
      cascadeSplitLambda = 19 / 20,
      cascades =
        replicate 4
          \<lparr>frameBuffer = 0, descriptorSet = 0, view = 0, splitDepth = 0,
           viewProjMatrix = (id, id), descriptor = (0, 0, 0)\<rparr>,
      debugDisplayReflection = False,
      debugDisplayRefraction = False,
      cascadeDebug_enabled = False,
      cascadeDebug_cascadeIndex = 0,
      offscreenPass_width = 1024,
      offscreenPass_height = 1024,
      offscreenPass_renderPass = 10,
      offscreenPass_refraction_frameBuffer = 11,
      offscreenPass_reflection_frameBuffer = 12,
      depthPass_renderPass = 13,
      renderPass = 14,
      frameBuffers = [20, 21],
      width = 1280,
      height = 720,
      defaultClearColor = (0, 0, 0, 1),
      commandBuffers = [[], []]\<rparr>"

section \<open>Notions used in the statements\<close>

text \<open>
  The distance \<^verbatim>\<open>d\<close> of the first loop as a function of \<^verbatim>\<open>p\<close>, with
  \<^verbatim>\<open>range\<close> and \<^verbatim>\<open>ratio\<close> of a camera with \<open>0 < nearClip\<close>.
\<close>

definition splitDistance :: "real \<Rightarrow> real \<Rightarrow> real \<Rightarrow> real \<Rightarrow> real" where
  "splitDistance n f l p =
     l * (n * ((f / n) powr p) - (n + (f - n) * p)) + (n + (f - n) * p)"

text \<open>
  The value of \<open>lastSplitDist\<close> when the loop that started at \<open>k\<close> with
  \<open>lastSplitDist\<close> reaches the cascade \<open>j\<close>.
\<close>

definition prevSplit :: "real list \<Rightarrow> nat \<Rightarrow> real \<Rightarrow> nat \<Rightarrow> real" where
  "prevSplit splits k lastSplitDist j = (if j = k then lastSplitDist else splits ! (j - 1))"

text \<open>
  The three debug flags, and the state in which each of the \<open>n\<close> command buffers
  holds the stream recorded from the state itself.
\<close>

definition toggles :: "'m VulkanExample \<Rightarrow> bool \<times> bool \<times> bool" where
  "toggles s = (debugDisplayReflection s, debugDisplayRefraction s, cascadeDebug_enabled s)"

definition streamsBuilt :: "'m glm \<Rightarrow> nat \<Rightarrow> nat \<Rightarrow> 'm VulkanExample \<Rightarrow> bool" where
  "streamsBuilt G N n s = (commandBuffers s = map (recordFrame G N s) [0..<n])"

definition rebuiltOrSame :: "'m glm \<Rightarrow> nat \<Rightarrow> 'm VulkanExample \<Rightarrow> 'm VulkanExample \<Rightarrow> bool" where
  "rebuiltOrSame G N s t =
     (length (commandBuffers t) = length (commandBuffers s)
      \<and> (toggles t = toggles s \<or> streamsBuilt G N (length (commandBuffers s)) t))"

text \<open>
  A state and a matrix library to evaluate the functions on: the clip planes, the
  lambda and the light of the constructor, four cascades and two command buffers.
  The stand-in matrices are numbers.
\<close>

definition glm0 :: "nat glm" where
  "glm0 =
     \<lparr>mat4_identity = 1, mat4_scale = (\<lambda>m v. m + 1), mat4_mul = (\<lambda>a b. a * b),
      mat4_inverse = (\<lambda>m. m), mat4_apply = (\<lambda>m v. v), lookAt = (\<lambda>eye center up. 2),
      ortho = (\<lambda>l r b t n f. 3)\<rparr>"

definition cascade0 :: "nat \<Rightarrow> nat Cascade" where
  "cascade0 i =
     \<lparr>frameBuffer = 100 + i, descriptorSet = 200 + i, view = 300 + i, splitDepth = 0,
      viewProjMatrix = 0, descriptor = (7, 8, 9)\<rparr>"

definition example0 :: "nat VulkanExample" where
  "example0 =
     \<lparr>camera = \<lparr>nearClip = 1 / 2, farClip = 48, matrices_perspective = 1, matrices_view = 1\<rparr>,
      lightPos = (- 400, - 300, - 300, 0),
      cascadeSplitLambda = 19 / 20,
      cascades = [cascade0 0, cascade0 1, cascade0 2, cascade0 3],
      debugDisplayReflection = False,
      debugDisplayRefraction = False,
      cascadeDebug_enabled = False,
      cascadeDebug_cascadeIndex = 0,
      offscreenPass_width = 1024,
      offscreenPass_height = 1024,
      offscreenPass_renderPass = 10,
      offscreenPass_refraction_frameBuffer = 11,
      offscreenPass_reflection_frameBuffer = 12,
      depthPass_renderPass = 13,
      renderPass = 14,
      frameBuffers = [20, 21],
      width = 1280,
      height = 720,
      defaultClearColor = (0, 0, 0, 1),
      commandBuffers = [[], []]\<rparr>"

section \<open>Split fractions\<close>

lemma cascadeSplit_splitDistance:
  "cascadeSplit n f l N i = (splitDistance n f l (real (i + 1) / real N) - n) / (f - n)"
  by (simp add: cascadeSplit_def splitDistance_def Let_def)

lemma cascadeSplits_nth:
  "i < N \<Longrightarrow> cascadeSplits n f l N ! i = cascadeSplit n f l N i"
  by (simp add: cascadeSplits_def)


lemma splitDistance_convex:
  "splitDistance n f l p = l * (n * ((f / n) powr p)) + (1 - l) * (n + (f - n) * p)"
  by (simp add: splitDistance_def algebra_simps)

text \<open>Both splits grow with \<open>p\<close>, and so does every blend of them with a weight in \<open>[0, 1]\<close>.\<close>

lemma splitDistance_strict_mono:
  assumes "0 < n" and "n < f" and "0 \<le> l" and "l \<le> 1" and "p < q"
  shows "splitDistance n f l p < splitDistance n f l q"
proof -
  have ratio: "1 < f / n" using assms by simp
  have logs: "n * ((f / n) powr p) < n * ((f / n) powr q)"
    using powr_less_mono[OF \<open>p < q\<close> ratio] \<open>0 < n\<close> by simp
  have unis: "n + (f - n) * p < n + (f - n) * q" using assms by simp
  have uni_part: "(1 - l) * (n + (f - n) * p) \<le> (1 - l) * (n + (f - n) * q)"
    using unis \<open>l \<le> 1\<close> by (simp add: mult_left_mono)
  show ?thesis
  proof (cases "l = 0")
    case True
    then show ?thesis using unis by (simp add: splitDistance_convex)
  next
    case False
    then have "0 < l" using \<open>0 \<le> l\<close> by simp
    then have "l * (n * ((f / n) powr p)) < l * (n * ((f / n) powr q))"
      using logs by simp
    then show ?thesis using uni_part by (simp add: splitDistance_convex add_less_le_mono)
  qed
qed


lemma splitDistance_1: "0 < n \<Longrightarrow> n < f \<Longrightarrow> splitDistance n f l 1 = f"
  by (simp add: splitDistance_def)

lemma cascadeSplit_strict_mono:
  assumes "0 < n" and "n < f" and "0 \<le> l" and "l \<le> 1" and "i < j" and "0 < N"
  shows "cascadeSplit n f l N i < cascadeSplit n f l N j"
proof -
  have "real (i + 1) / real N < real (j + 1) / real N"
    using \<open>i < j\<close> \<open>0 < N\<close> by (simp add: divide_strict_right_mono)
  then have "splitDistance n f l (real (i + 1) / real N) < splitDistance n f l (real (j + 1) / real N)"
    using assms by (intro splitDistance_strict_mono)
  then show ?thesis
    using \<open>n < f\<close> by (simp add: cascadeSplit_splitDistance divide_strict_right_mono)
qed


lemma cascadeSplit_last:
  assumes "0 < n" and "n < f" and "0 < N"
  shows "cascadeSplit n f l N (N - 1) = 1"
proof -
  have "real (N - 1 + 1) / real N = 1" using \<open>0 < N\<close> by simp
  then show ?thesis
    using assms unfolding cascadeSplit_splitDistance by (simp add: splitDistance_1)
qed






subsection \<open>The fractions the program computes\<close>

lemma ulp_down_numeral:
  "ulp_down (numeral k) x =
     (if x < 2 then 1 / 8388608 else 2 * ulp_down (pred_numeral k) (x / 2))"
  by (simp add: numeral_eq_Suc)

lemma ulp_up_numeral:
  "ulp_up (numeral k) x =
     (if 1 \<le> x then 1 / 8388608 else ulp_up (pred_numeral k) (x * 2) / 2)"
  by (simp add: numeral_eq_Suc)

lemmas binary32_eval =
  round32_def ulp32_def ulp_down_numeral ulp_up_numeral round_even_def Let_def




subsection \<open>Clip planes two units in the last place apart\<close>

text \<open>
  The bound 1 is not the only part of the statement that rounding breaks. With the near
  plane at 1 and the far plane at \<open>1 + 2 ^ -22\<close>, two units in the last place above it,
  the first fraction is 0 and the second and the third are both \<open>1 / 2\<close>. The powers
  with the exponents \<open>1 / 4\<close>, \<open>1 / 2\<close> and \<open>3 / 4\<close> are enclosed between neighbouring
  binary32 numbers and rounded.
\<close>

lemma round32_near:
  assumes "1 \<le> y" and "y < 2"
    and "of_int k - 1 / 2 < y * 8388608" and "y * 8388608 < of_int k + 1 / 2"
  shows "round32 y = of_int k / 8388608"
proof -
  have ulp: "ulp32 y = 1 / 8388608"
    using assms(1,2) by (simp add: ulp32_def ulp_down_numeral)
  have "round_even (y * 8388608) = k"
  proof (cases "of_int k \<le> y * 8388608")
    case True
    then have "\<lfloor>y * 8388608\<rfloor> = k" using assms(4) by (simp add: floor_unique)
    then show ?thesis using assms(4) by (simp add: round_even_def Let_def)
  next
    case False
    then have "\<lfloor>y * 8388608\<rfloor> = k - 1" using assms(3) by (simp add: floor_unique)
    then show ?thesis using assms(3) by (simp add: round_even_def Let_def)
  qed
  then show ?thesis by (simp add: round32_def ulp)
qed

lemma powr_frac_less:
  fixes a b :: real
  assumes "0 < a" and "0 < b" and "0 < n" and "a ^ m < b ^ n"
  shows "a powr (real m / real n) < b"
proof -
  have "a powr (real m / real n) = (a ^ m) powr (1 / real n)"
    using assms(1) by (simp add: powr_powr powr_realpow[symmetric])
  also have "\<dots> < (b ^ n) powr (1 / real n)"
    using assms by (intro powr_less_mono2) simp_all
  also have "\<dots> = b"
    using assms(2,3) by (simp add: powr_powr powr_realpow[symmetric])
  finally show ?thesis .
qed

lemma powr_frac_greater:
  fixes a b :: real
  assumes "0 < a" and "0 < b" and "0 < n" and "b ^ n < a ^ m"
  shows "b < a powr (real m / real n)"
proof -
  have "b = (b ^ n) powr (1 / real n)"
    using assms(2,3) by (simp add: powr_powr powr_realpow[symmetric])
  also have "\<dots> < (a ^ m) powr (1 / real n)"
    using assms by (intro powr_less_mono2) simp_all
  also have "\<dots> = a powr (real m / real n)"
    using assms(1) by (simp add: powr_powr powr_realpow[symmetric])
  finally show ?thesis .
qed

lemma fpow_quarter: "round32 ((4194305 / 4194304) powr (1 / 4)) = 1"
proof -
  define x :: real where "x = (4194305 / 4194304) powr (real 1 / real 4)"
  have lo: "1 < x"
    unfolding x_def by (rule powr_frac_greater) (simp_all add: power_divide)
  have hi: "x < 16777217 / 16777216"
    unfolding x_def by (rule powr_frac_less) (simp_all add: power_divide)
  have "round32 x = of_int 8388608 / 8388608"
    using lo hi by (intro round32_near) simp_all
  then show ?thesis by (simp add: x_def)
qed

lemma fpow_half: "round32 ((4194305 / 4194304) powr (1 / 2)) = 8388609 / 8388608"
proof -
  define x :: real where "x = (4194305 / 4194304) powr (real 1 / real 2)"
  have lo: "16777217 / 16777216 < x"
    unfolding x_def by (rule powr_frac_greater) (simp_all add: power_divide)
  have hi: "x < 16777219 / 16777216"
    unfolding x_def by (rule powr_frac_less) (simp_all add: power_divide)
  have "round32 x = of_int 8388609 / 8388608"
    using lo hi by (intro round32_near) simp_all
  then show ?thesis by (simp add: x_def)
qed

lemma fpow_three_quarters: "round32 ((4194305 / 4194304) powr (3 / 4)) = 8388609 / 8388608"
proof -
  define x :: real where "x = (4194305 / 4194304) powr (real 3 / real 4)"
  have lo: "16777217 / 16777216 < x"
    unfolding x_def by (rule powr_frac_greater) (simp_all add: power_divide)
  have hi: "x < 16777219 / 16777216"
    unfolding x_def by (rule powr_frac_less) (simp_all add: power_divide)
  have "round32 x = of_int 8388609 / 8388608"
    using lo hi by (intro round32_near) simp_all
  then show ?thesis by (simp add: x_def)
qed

lemma cascadeSplit_f32_close_0:
  "cascadeSplit_f32 1 (4194305 / 4194304) (15938355 / 16777216) 4 0 = 0"
proof -
  let ?a = "4194305 / 4194304 :: real"
  let ?l = "15938355 / 16777216 :: real"
  have clipRange: "fsub ?a 1 = 1 / 4194304"
    by (simp add: fsub_def binary32_eval)
  have maxZ: "fadd 1 (1 / 4194304) = ?a"
    by (simp add: fadd_def binary32_eval)
  have ratio: "fdiv ?a 1 = ?a"
    by (simp add: fdiv_def binary32_eval)
  have p: "fdiv (round32 (real (0 + 1))) (round32 (real 4)) = 1 / 4"
    by (simp add: fdiv_def binary32_eval)
  have pw: "fpow ?a (1 / 4) = 1"
    by (simp only: fpow_def fpow_quarter)
  have logd: "fmul 1 1 = 1"
    by (simp add: fmul_def binary32_eval)
  have rp: "fmul (1 / 4194304) (1 / 4) = 1 / 16777216"
    by (simp add: fmul_def binary32_eval)
  have uniform: "fadd 1 (1 / 16777216) = 1"
    by (simp add: fadd_def binary32_eval)
  have diff: "fsub 1 1 = 0"
    by (simp add: fsub_def binary32_eval)
  have scaled: "fmul ?l 0 = 0"
    by (simp add: fmul_def binary32_eval)
  have d: "fadd 0 1 = 1"
    by (simp add: fadd_def binary32_eval)
  have quot: "fdiv 0 (1 / 4194304) = 0"
    by (simp add: fdiv_def binary32_eval)
  show ?thesis
    unfolding cascadeSplit_f32_def Let_def
    by (simp only: clipRange maxZ ratio p pw logd rp uniform diff scaled d quot)
qed

lemma cascadeSplit_f32_close_1:
  "cascadeSplit_f32 1 (4194305 / 4194304) (15938355 / 16777216) 4 1 = 1 / 2"
proof -
  let ?a = "4194305 / 4194304 :: real"
  let ?b = "8388609 / 8388608 :: real"
  let ?l = "15938355 / 16777216 :: real"
  have clipRange: "fsub ?a 1 = 1 / 4194304"
    by (simp add: fsub_def binary32_eval)
  have maxZ: "fadd 1 (1 / 4194304) = ?a"
    by (simp add: fadd_def binary32_eval)
  have ratio: "fdiv ?a 1 = ?a"
    by (simp add: fdiv_def binary32_eval)
  have p: "fdiv (round32 (real (1 + 1))) (round32 (real 4)) = 1 / 2"
    by (simp add: fdiv_def binary32_eval)
  have pw: "fpow ?a (1 / 2) = ?b"
    by (simp only: fpow_def fpow_half)
  have logd: "fmul 1 ?b = ?b"
    by (simp add: fmul_def binary32_eval)
  have rp: "fmul (1 / 4194304) (1 / 2) = 1 / 8388608"
    by (simp add: fmul_def binary32_eval)
  have uniform: "fadd 1 (1 / 8388608) = ?b"
    by (simp add: fadd_def binary32_eval)
  have diff: "fsub ?b ?b = 0"
    by (simp add: fsub_def binary32_eval)
  have scaled: "fmul ?l 0 = 0"
    by (simp add: fmul_def binary32_eval)
  have d: "fadd 0 ?b = ?b"
    by (simp add: fadd_def binary32_eval)
  have num: "fsub ?b 1 = 1 / 8388608"
    by (simp add: fsub_def binary32_eval)
  have quot: "fdiv (1 / 8388608) (1 / 4194304) = 1 / 2"
    by (simp add: fdiv_def binary32_eval)
  show ?thesis
    unfolding cascadeSplit_f32_def Let_def
    by (simp only: clipRange maxZ ratio p pw logd rp uniform diff scaled d num quot)
qed

lemma cascadeSplit_f32_close_2:
  "cascadeSplit_f32 1 (4194305 / 4194304) (15938355 / 16777216) 4 2 = 1 / 2"
proof -
  let ?a = "4194305 / 4194304 :: real"
  let ?b = "8388609 / 8388608 :: real"
  let ?l = "15938355 / 16777216 :: real"
  have clipRange: "fsub ?a 1 = 1 / 4194304"
    by (simp add: fsub_def binary32_eval)
  have maxZ: "fadd 1 (1 / 4194304) = ?a"
    by (simp add: fadd_def binary32_eval)
  have ratio: "fdiv ?a 1 = ?a"
    by (simp add: fdiv_def binary32_eval)
  have p: "fdiv (round32 (real (2 + 1))) (round32 (real 4)) = 3 / 4"
    by (simp add: fdiv_def binary32_eval)
  have pw: "fpow ?a (3 / 4) = ?b"
    by (simp only: fpow_def fpow_three_quarters)
  have logd: "fmul 1 ?b = ?b"
    by (simp add: fmul_def binary32_eval)
  have rp: "fmul (1 / 4194304) (3 / 4) = 3 / 16777216"
    by (simp add: fmul_def binary32_eval)
  have uniform: "fadd 1 (3 / 16777216) = ?a"
    by (simp add: fadd_def binary32_eval)
  have diff: "fsub ?b ?a = - (1 / 8388608)"
    by (simp add: fsub_def binary32_eval)
  have scaled: "fmul ?l (- (1 / 8388608)) = - (15938355 / 140737488355328)"
    by (simp add: fmul_def binary32_eval)
  have d: "fadd (- (15938355 / 140737488355328)) ?a = ?b"
    by (simp add: fadd_def binary32_eval)
  have num: "fsub ?b 1 = 1 / 8388608"
    by (simp add: fsub_def binary32_eval)
  have quot: "fdiv (1 / 8388608) (1 / 4194304) = 1 / 2"
    by (simp add: fdiv_def binary32_eval)
  show ?thesis
    unfolding cascadeSplit_f32_def Let_def
    by (simp only: clipRange maxZ ratio p pw logd rp uniform diff scaled d num quot)
qed

section \<open>The loop over the cascades\<close>

text \<open>
  What the loop started at \<open>k\<close> leaves at the index \<open>j\<close>: by induction on the
  number of cascades still to visit, with the accumulator and the array generalised.
\<close>

lemma cascadeLoop_nth:
  "cascadeLoop G cam lp cr splits [k..<N] lst cs ! j =
     (if k \<le> j \<and> j < N \<and> j < length cs
      then cascadeStore G cam lp cr (prevSplit splits k lst j) (splits ! j) (cs ! j)
      else cs ! j)"
proof (induction "N - k" arbitrary: k lst cs)
  case 0
  then show ?case by auto
next
  case (Suc d)
  then have kN: "k < N" and d: "d = N - Suc k" by simp_all
  have up: "[k..<N] = k # [Suc k..<N]" using kN by (simp add: upt_conv_Cons)
  let ?c = "cascadeStore G cam lp cr lst (splits ! k) (cs ! k)"
  have step: "cascadeLoop G cam lp cr splits [k..<N] lst cs
      = cascadeLoop G cam lp cr splits [Suc k..<N] (splits ! k) (cs[k := ?c])"
    unfolding up by (simp add: Let_def)
  show ?case
  proof (cases "j = k")
    case True
    show ?thesis
    proof (cases "k < length cs")
      case True
      with \<open>j = k\<close> kN show ?thesis
        unfolding step Suc.hyps(1)[OF d] by (simp add: prevSplit_def)
    next
      case False
      with \<open>j = k\<close> kN show ?thesis
        unfolding step Suc.hyps(1)[OF d] by (simp add: list_update_beyond)
    qed
  next
    case False
    then show ?thesis
      unfolding step Suc.hyps(1)[OF d] by (auto simp: prevSplit_def)
  qed
qed

lemma cascadeLoop_length:
  "length (cascadeLoop G cam lp cr splits js lst cs) = length cs"
  by (induction js arbitrary: lst cs) (simp_all add: Let_def)

lemma cascades_updateCascades_nth:
  "cascades (updateCascades G N s) ! j =
     (if j < N \<and> j < length (cascades s)
      then cascadeStore G (camera s) (lightPos s) (farClip (camera s) - nearClip (camera s))
             (prevSplit
                (cascadeSplits (nearClip (camera s)) (farClip (camera s)) (cascadeSplitLambda s) N)
                0 0 j)
             (cascadeSplits (nearClip (camera s)) (farClip (camera s)) (cascadeSplitLambda s) N ! j)
             (cascades s ! j)
      else cascades s ! j)"
  by (simp add: updateCascades_def Let_def cascadeLoop_nth)

lemma length_cascades_updateCascades:
  "length (cascades (updateCascades G N s)) = length (cascades s)"
  by (simp add: updateCascades_def Let_def cascadeLoop_length)

lemma updateCascades_reads:
  "camera (updateCascades G N s) = camera s"
  "lightPos (updateCascades G N s) = lightPos s"
  "cascadeSplitLambda (updateCascades G N s) = cascadeSplitLambda s"
  by (simp_all add: updateCascades_def Let_def)

lemma updateCascades_writes:
  "updateCascades G N s = s\<lparr>cascades := cascades (updateCascades G N s)\<rparr>"
  by (simp add: updateCascades_def Let_def)

lemma cascadeStore_idem:
  "cascadeStore G cam lp cr a b (cascadeStore G cam lp cr a b c) = cascadeStore G cam lp cr a b c"
  by (simp add: cascadeStore_def)

lemma cascadeStore_fields:
  "frameBuffer (cascadeStore G cam lp cr a b c) = frameBuffer c"
  "descriptorSet (cascadeStore G cam lp cr a b c) = descriptorSet c"
  "view (cascadeStore G cam lp cr a b c) = view c"
  "descriptor (cascadeStore G cam lp cr a b c) = descriptor c"
  "splitDepth (cascadeStore G cam lp cr a b c) = - (nearClip cam + b * cr)"
  "viewProjMatrix (cascadeStore G cam lp cr a b c) = cascadeViewProj G cam lp a b"
  by (simp_all add: cascadeStore_def)

lemma cascadeStore_restore:
  "(cascadeStore G cam lp cr a b c)\<lparr>splitDepth := splitDepth c, viewProjMatrix := viewProjMatrix c\<rparr> = c"
  by (simp add: cascadeStore_def)

lemma updateCascades_idem:
  "updateCascades G N (updateCascades G N s) = updateCascades G N s"
proof -
  let ?s' = "updateCascades G N s"
  have "cascades (updateCascades G N ?s') = cascades ?s'"
  proof (rule nth_equalityI)
    show "length (cascades (updateCascades G N ?s')) = length (cascades ?s')"
      by (simp add: length_cascades_updateCascades)
  next
    fix j
    show "cascades (updateCascades G N ?s') ! j = cascades ?s' ! j"
      unfolding cascades_updateCascades_nth[of G N ?s'] updateCascades_reads
        length_cascades_updateCascades
      by (simp add: cascades_updateCascades_nth cascadeStore_idem)
  qed
  moreover have "updateCascades G N ?s' = ?s'\<lparr>cascades := cascades (updateCascades G N ?s')\<rparr>"
    by (rule updateCascades_writes)
  ultimately show ?thesis by simp
qed

subsection \<open>The corners of a slice\<close>

lemma upt_4: "[0..<4] = [0, 1, 2, 3::nat]"
  by (simp add: upt_rec)

lemma sliceCorners_8:
  "sliceCorners sd ld [c0, c1, c2, c3, c4, c5, c6, c7] =
     [vec3_add c0 (vec3_scale (vec3_sub c4 c0) ld),
      vec3_add c1 (vec3_scale (vec3_sub c5 c1) ld),
      vec3_add c2 (vec3_scale (vec3_sub c6 c2) ld),
      vec3_add c3 (vec3_scale (vec3_sub c7 c3) ld),
      vec3_add c0 (vec3_scale (vec3_sub c4 c0) sd),
      vec3_add c1 (vec3_scale (vec3_sub c5 c1) sd),
      vec3_add c2 (vec3_scale (vec3_sub c6 c2) sd),
      vec3_add c3 (vec3_scale (vec3_sub c7 c3) sd)]"
  unfolding sliceCorners_def upt_4 by (simp add: sliceStep_def Let_def)

lemma length_8_cases:
  assumes "length xs = 8"
  obtains c0 c1 c2 c3 c4 c5 c6 c7 where "xs = [c0, c1, c2, c3, c4, c5, c6, c7]"
  using assms by (auto simp: eval_nat_numeral length_Suc_conv)

lemma sliceCorners_nth:
  assumes "length fc = 8" and "k < 4"
  shows "sliceCorners sd ld fc ! k
           = vec3_add (fc ! k) (vec3_scale (vec3_sub (fc ! (k + 4)) (fc ! k)) ld)
       \<and> sliceCorners sd ld fc ! (k + 4)
           = vec3_add (fc ! k) (vec3_scale (vec3_sub (fc ! (k + 4)) (fc ! k)) sd)"
proof -
  obtain c0 c1 c2 c3 c4 c5 c6 c7 where fc: "fc = [c0, c1, c2, c3, c4, c5, c6, c7]"
    using assms(1) by (rule length_8_cases)
  have k: "k = 0 \<or> k = 1 \<or> k = 2 \<or> k = 3" using assms(2) by auto
  show ?thesis using k unfolding fc sliceCorners_8 by auto
qed

lemma length_worldCorners: "length (worldCorners G cam) = 8"
  by (simp add: worldCorners_def Let_def ndcCorners_def)

subsection \<open>The bounding sphere\<close>







section \<open>Properties of the cascade recomputation\<close>

lemma length_ndcCorners: "length ndcCorners = 8"
  by (simp add: ndcCorners_def)

text \<open>
  The slices. For a cascade \<open>i\<close> of the \<open>N\<close> in the array, the stored \<open>splitDepth\<close> is
  \<open>- (near + splitFraction i * range)\<close>, and the stored matrix is the one of the frustum
  slice that starts at the previous cascade's split fraction (0 for cascade 0) and ends
  at the cascade's own split fraction. A fraction \<open>t\<close> is the point \<open>c + t * (c' - c)\<close> on
  the edge between a corner \<open>c\<close> of the clip-space cube with \<open>z = - 1\<close> and the corner
  \<open>c'\<close> with \<open>z = 1\<close> above it, both unprojected through the inverse of projection times
  view and divided by their \<open>w\<close>. The slice of cascade \<open>i + 1\<close> starts at the corners
  where the slice of cascade \<open>i\<close> ends. The results of cascade \<open>i\<close> are at the index
  \<open>i\<close>: the counters of the inner loops do not reach the outer one.
\<close>

theorem cascade_slice_bounds:
  fixes G :: "'m glm" and s :: "'m VulkanExample" and N :: nat
  defines "splits \<equiv>
    cascadeSplits (nearClip (camera s)) (farClip (camera s)) (cascadeSplitLambda s) N"
  defines "invCam \<equiv>
    mat4_inverse G (mat4_mul G (matrices_perspective (camera s)) (matrices_view (camera s)))"
  defines "wc \<equiv> worldCorners G (camera s)"
  defines "lastSplit \<equiv> (\<lambda>i. if i = 0 then 0 else splits ! (i - 1))"
  defines "fc \<equiv> (\<lambda>i. sliceCorners (splits ! i) (lastSplit i) wc)"
  assumes "i < N" and "N \<le> length (cascades s)"
  shows "splitDepth (cascades (updateCascades G N s) ! i)
           = - (nearClip (camera s) + splits ! i * (farClip (camera s) - nearClip (camera s)))
     \<and> viewProjMatrix (cascades (updateCascades G N s) ! i) = sliceViewProj G (lightPos s) (fc i)
     \<and> (\<forall>k<4. fc i ! k
                 = vec3_add (wc ! k) (vec3_scale (vec3_sub (wc ! (k + 4)) (wc ! k)) (lastSplit i))
               \<and> fc i ! (k + 4)
                 = vec3_add (wc ! k) (vec3_scale (vec3_sub (wc ! (k + 4)) (wc ! k)) (splits ! i)))
     \<and> (Suc i < N \<longrightarrow> lastSplit (Suc i) = splits ! i \<and> (\<forall>k<4. fc (Suc i) ! k = fc i ! (k + 4)))
     \<and> (\<forall>k<8. wc ! k
           = vec3_of_vec4
               (vec4_div (mat4_apply G invCam (vec4_of_vec3 (ndcCorners ! k) 1))
                  (vec4_w (mat4_apply G invCam (vec4_of_vec3 (ndcCorners ! k) 1)))))
     \<and> ndcCorners
           = [(- 1, 1, - 1), (1, 1, - 1), (1, - 1, - 1), (- 1, - 1, - 1),
              (- 1, 1, 1), (1, 1, 1), (1, - 1, 1), (- 1, - 1, 1)]"
proof -
  have i: "i < length (cascades s)" using assms by simp
  have prev: "prevSplit splits 0 0 i = lastSplit i"
    by (simp add: prevSplit_def lastSplit_def)
  have depth: "splitDepth (cascades (updateCascades G N s) ! i)
           = - (nearClip (camera s) + splits ! i * (farClip (camera s) - nearClip (camera s)))"
    using \<open>i < N\<close> i
    by (simp add: cascades_updateCascades_nth cascadeStore_fields splits_def)
  have matrix: "viewProjMatrix (cascades (updateCascades G N s) ! i)
           = sliceViewProj G (lightPos s) (fc i)"
    using \<open>i < N\<close> i prev
    by (simp add: cascades_updateCascades_nth cascadeStore_fields cascadeViewProj_def
          splits_def[symmetric] fc_def wc_def)
  have wc8: "length wc = 8" by (simp add: wc_def length_worldCorners)
  have corners: "\<forall>k<4. fc i ! k
                 = vec3_add (wc ! k) (vec3_scale (vec3_sub (wc ! (k + 4)) (wc ! k)) (lastSplit i))
               \<and> fc i ! (k + 4)
                 = vec3_add (wc ! k) (vec3_scale (vec3_sub (wc ! (k + 4)) (wc ! k)) (splits ! i))"
    unfolding fc_def using sliceCorners_nth[OF wc8] by blast
  have "\<forall>k<4. fc (Suc i) ! k = fc i ! (k + 4)"
    unfolding fc_def using sliceCorners_nth[OF wc8] by (simp add: lastSplit_def)
  then have next_slice: "Suc i < N \<longrightarrow>
      lastSplit (Suc i) = splits ! i \<and> (\<forall>k<4. fc (Suc i) ! k = fc i ! (k + 4))"
    by (simp add: lastSplit_def)
  have unprojected: "\<forall>k<8. wc ! k
           = vec3_of_vec4
               (vec4_div (mat4_apply G invCam (vec4_of_vec3 (ndcCorners ! k) 1))
                  (vec4_w (mat4_apply G invCam (vec4_of_vec3 (ndcCorners ! k) 1))))"
    using length_ndcCorners
    by (simp add: wc_def worldCorners_def invCam_def unproject_def Let_def)
  have cube: "ndcCorners
           = [(- 1, 1, - 1), (1, 1, - 1), (1, - 1, - 1), (- 1, - 1, - 1),
              (- 1, 1, 1), (1, 1, 1), (1, - 1, 1), (- 1, - 1, 1)]"
    by (simp add: ndcCorners_def)
  show ?thesis using depth matrix corners next_slice unprojected cube by blast
qed

theorem cascade_slice_bounds_witness:
  "(1::nat) < 4 \<and> 4 \<le> length (cascades example0)
   \<and> splitDepth (cascades (updateCascades glm0 4 example0) ! 1)
       = - (nearClip (camera example0)
            + cascadeSplits (nearClip (camera example0)) (farClip (camera example0))
                (cascadeSplitLambda example0) 4 ! 1
              * (farClip (camera example0) - nearClip (camera example0)))
   \<and> viewProjMatrix (cascades (updateCascades glm0 4 example0) ! 1)
       = sliceViewProj glm0 (lightPos example0)
           (sliceCorners
              (cascadeSplits (nearClip (camera example0)) (farClip (camera example0))
                 (cascadeSplitLambda example0) 4 ! 1)
              (cascadeSplits (nearClip (camera example0)) (farClip (camera example0))
                 (cascadeSplitLambda example0) 4 ! 0)
              (worldCorners glm0 (camera example0)))"
proof -
  have h1: "(1::nat) < 4" by simp
  have h2: "4 \<le> length (cascades example0)" by (simp add: example0_def)
  note inst = cascade_slice_bounds[where i = 1 and N = 4 and s = example0 and G = glm0, OF h1 h2]
  have depth: "splitDepth (cascades (updateCascades glm0 4 example0) ! 1)
       = - (nearClip (camera example0)
            + cascadeSplits (nearClip (camera example0)) (farClip (camera example0))
                (cascadeSplitLambda example0) 4 ! 1
              * (farClip (camera example0) - nearClip (camera example0)))"
    using inst by (elim conjE)
  have "viewProjMatrix (cascades (updateCascades glm0 4 example0) ! 1)
       = sliceViewProj glm0 (lightPos example0)
           (sliceCorners
              (cascadeSplits (nearClip (camera example0)) (farClip (camera example0))
                 (cascadeSplitLambda example0) 4 ! 1)
              (if (1::nat) = 0 then 0
               else cascadeSplits (nearClip (camera example0)) (farClip (camera example0))
                 (cascadeSplitLambda example0) 4 ! (1 - 1))
              (worldCorners glm0 (camera example0)))"
    using inst by (elim conjE)
  then have matrix: "viewProjMatrix (cascades (updateCascades glm0 4 example0) ! 1)
       = sliceViewProj glm0 (lightPos example0)
           (sliceCorners
              (cascadeSplits (nearClip (camera example0)) (farClip (camera example0))
                 (cascadeSplitLambda example0) 4 ! 1)
              (cascadeSplits (nearClip (camera example0)) (farClip (camera example0))
                 (cascadeSplitLambda example0) 4 ! 0)
              (worldCorners glm0 (camera example0)))"
    by simp
  show ?thesis using h1 h2 depth matrix by (intro conjI)
qed

subsection \<open>Where the slice of cascade 0 starts under the zero-to-one projection\<close>

lemma unperspective_w:
  fixes n f z w :: real
  assumes "n \<noteq> 0" and "f \<noteq> 0" and "n \<noteq> f"
  shows "(f / (n - f) * z - f * n / (f - n) * w + f / (n - f) * (- z))
           * (- ((f - n) / (f * n))) = w"
proof -
  have fn: "f - n \<noteq> 0" using assms by simp
  have "f / (n - f) * z - f * n / (f - n) * w + f / (n - f) * (- z) = - (f * n / (f - n) * w)"
    by (simp add: algebra_simps)
  also have "\<dots> * (- ((f - n) / (f * n))) = w"
    using assms fn by simp
  finally show ?thesis .
qed

lemma perspective_z:
  fixes n f cz cw :: real
  assumes "n \<noteq> 0" and "f \<noteq> 0" and "n \<noteq> f"
  shows "f / (n - f) * (- cw)
           - f * n / (f - n) * ((cz + f / (n - f) * cw) * (- ((f - n) / (f * n)))) = cz"
proof -
  have fn: "f - n \<noteq> 0" using assms by simp
  have "f * n / (f - n) * ((cz + f / (n - f) * cw) * (- ((f - n) / (f * n))))
      = - (cz + f / (n - f) * cw)"
    using assms fn by simp
  then show ?thesis by simp
qed

text \<open>The two maps of the projection are inverse to each other.\<close>

lemma perspective_inverse:
  assumes "t \<noteq> 0" and "a \<noteq> 0" and "n \<noteq> 0" and "f \<noteq> 0" and "n \<noteq> f"
  shows "unperspective_map t a n f (perspective_map t a n f v) = v
     \<and> perspective_map t a n f (unperspective_map t a n f v) = v"
proof -
  obtain x y z w where v: "v = (x, y, z, w)" by (cases v) auto
  show ?thesis
    unfolding v using assms unperspective_w[OF assms(3-5)] perspective_z[OF assms(3-5)] by simp
qed

text \<open>The projection sends the near plane to the clip depth 0, not to - 1.\<close>

lemma near_plane_clip_depth:
  fixes n f :: real
  assumes "n \<noteq> 0" and "f \<noteq> 0" and "n \<noteq> f"
  shows "perspective_map t a n f (x, y, - n, 1) = (x / (a * t), y / t, 0, n)"
proof -
  have "f - n \<noteq> 0" "n - f \<noteq> 0" using assms by simp_all
  then have "f / (n - f) * (- n) - f * n / (f - n) = 0"
    by (simp add: divide_simps) (simp add: algebra_simps)
  then show ?thesis by simp
qed

text \<open>
  Under this projection the corners of the clip-space cube with \<open>z = - 1\<close> do not
  unproject to the near plane, whatever the field of view and the clip planes: they lie
  at the depth \<open>f * n / (2 * f - n)\<close>, which is less than \<open>n\<close>.
\<close>

lemma near_corner_depth:
  assumes "0 < n" and "n < f"
  shows "- vec3_z (unproject glmMaps
             (mat4_inverse glmMaps (mat4_mul glmMaps (perspectiveRH_ZO fovy a n f) (id, id)))
             (x, y, - 1))
           = f * n / (2 * f - n)"
    and "f * n / (2 * f - n) < n"
proof -
  have nz: "n \<noteq> 0" "f \<noteq> 0" "f - n \<noteq> 0" "n - f \<noteq> 0" "2 * f - n \<noteq> 0" using assms by simp_all
  have "f / (n - f) * (f - n) = - f"
    using nz by (simp add: field_simps)
  then have w: "(f / (n - f) - 1) * (f - n) = - (2 * f - n)"
    by (simp add: algebra_simps)
  have neg: "- (f * n / (n - 2 * f)) = f * n / (2 * f - n)"
  proof -
    have "f * n / (n - 2 * f) = f * n / (- (2 * f - n))" by simp
    also have "\<dots> = - (f * n / (2 * f - n))" by (rule divide_minus_right)
    finally show ?thesis by (simp only: minus_minus)
  qed
  show "- vec3_z (unproject glmMaps
             (mat4_inverse glmMaps (mat4_mul glmMaps (perspectiveRH_ZO fovy a n f) (id, id)))
             (x, y, - 1))
           = f * n / (2 * f - n)"
    using nz by (simp add: unproject_def glmMaps_def perspectiveRH_ZO_def Let_def w neg)
  have "f * n < n * (2 * f - n)" using assms by (simp add: algebra_simps)
  then show "f * n / (2 * f - n) < n"
    using assms by (simp add: pos_divide_less_eq)
qed

lemma worldCorners_cameraZO_z:
  "map vec3_z (worldCorners glmMaps cameraZO) =
     [- (48 / 191), - (48 / 191), - (48 / 191), - (48 / 191), - 48, - 48, - 48, - 48]"
  by (simp add: worldCorners_def Let_def glmMaps_def cameraZO_def perspectiveRH_ZO_def
        ndcCorners_def unproject_def)

lemma viewDepth_cameraZO: "viewDepth glmMaps cameraZO p = - vec3_z p"
  by (cases p) (simp add: viewDepth_def glmMaps_def cameraZO_def)

lemma vec3_z_start: "vec3_z (vec3_add p (vec3_scale d 0)) = vec3_z p"
  by (cases p; cases d) simp

lemma vec3_z_along:
  "vec3_z (vec3_add p (vec3_scale (vec3_sub q p) t)) = vec3_z p + (vec3_z q - vec3_z p) * t"
  by (cases p; cases q) simp

lemma worldCorners_cameraZO_nth:
  "vec3_z (worldCorners glmMaps cameraZO ! 0) = - (48 / 191)"
  "vec3_z (worldCorners glmMaps cameraZO ! 4) = - 48"
proof -
  have "vec3_z (worldCorners glmMaps cameraZO ! 0) = map vec3_z (worldCorners glmMaps cameraZO) ! 0"
    by (simp add: length_worldCorners)
  then show "vec3_z (worldCorners glmMaps cameraZO ! 0) = - (48 / 191)"
    unfolding worldCorners_cameraZO_z by simp
  have "vec3_z (worldCorners glmMaps cameraZO ! 4) = map vec3_z (worldCorners glmMaps cameraZO) ! 4"
    by (simp add: length_worldCorners)
  then show "vec3_z (worldCorners glmMaps cameraZO ! 4) = - 48"
    unfolding worldCorners_cameraZO_z by simp
qed

lemma slice0_depths:
  "viewDepth glmMaps cameraZO (sliceCorners t 0 (worldCorners glmMaps cameraZO) ! 0) = 48 / 191"
  "viewDepth glmMaps cameraZO (sliceCorners t 0 (worldCorners glmMaps cameraZO) ! 4)
     = 48 / 191 + t * (48 - 48 / 191)"
proof -
  let ?wc = "worldCorners glmMaps cameraZO"
  have k: "(0::nat) < 4" by simp
  have both: "sliceCorners t 0 ?wc ! 0
        = vec3_add (?wc ! 0) (vec3_scale (vec3_sub (?wc ! (0 + 4)) (?wc ! 0)) 0)
      \<and> sliceCorners t 0 ?wc ! (0 + 4)
        = vec3_add (?wc ! 0) (vec3_scale (vec3_sub (?wc ! (0 + 4)) (?wc ! 0)) t)"
    using sliceCorners_nth[OF length_worldCorners k, where sd = t and ld = 0] by blast
  from both have "vec3_z (sliceCorners t 0 ?wc ! 0) = vec3_z (?wc ! 0)"
    by (simp only: vec3_z_start)
  then show "viewDepth glmMaps cameraZO (sliceCorners t 0 ?wc ! 0) = 48 / 191"
    by (simp add: viewDepth_cameraZO worldCorners_cameraZO_nth)
  from both have "vec3_z (sliceCorners t 0 ?wc ! 4)
      = vec3_z (?wc ! 0) + (vec3_z (?wc ! 4) - vec3_z (?wc ! 0)) * t"
    by (simp add: vec3_z_along)
  then show "viewDepth glmMaps cameraZO (sliceCorners t 0 ?wc ! 4) = 48 / 191 + t * (48 - 48 / 191)"
    by (simp add: viewDepth_cameraZO worldCorners_cameraZO_nth algebra_simps)
qed

lemma split0_below_1: "cascadeSplits (1 / 2) 48 (19 / 20) 4 ! 0 < 1"
proof -
  have "cascadeSplit (1 / 2) 48 (19 / 20) 4 0 < cascadeSplit (1 / 2) 48 (19 / 20) 4 (4 - 1)"
    by (intro cascadeSplit_strict_mono) simp_all
  also have "\<dots> = 1"
    by (intro cascadeSplit_last) simp_all
  finally show ?thesis by (simp add: cascadeSplits_nth)
qed

text \<open>
  Claim C4. The claim has the slice of cascade 0 start at the camera near plane, and the
  loop measures its fractions from there: the depth it stores for a fraction \<open>t\<close> is
  \<open>near + t * range\<close>. The corners it starts from are those of the clip-space cube with
  \<open>z = - 1\<close>, and under the zero-to-one projection these are not on the near plane.
  For the camera of the constructor (clip planes 0.5 and 48) the slice of cascade 0
  starts at the depth \<open>48 / 191\<close>, about half the way to the near plane, and for its
  split fraction \<open>t\<close> it ends at the depth \<open>48 / 191 + t * (48 - 48 / 191)\<close>, which is
  not the depth \<open>1 / 2 + t * (48 - 1 / 2)\<close> that the same pass stores as \<open>splitDepth\<close>.
\<close>

theorem updateCascades_slice_misses_near_plane:
  "nearClip (camera exampleZO) = 1 / 2 \<and> farClip (camera exampleZO) = 48
   \<and> viewDepth glmMaps (camera exampleZO)
        (sliceCorners (cascadeSplits (1 / 2) 48 (19 / 20) 4 ! 0) 0
           (worldCorners glmMaps (camera exampleZO)) ! 0) = 48 / 191
   \<and> viewDepth glmMaps (camera exampleZO)
        (sliceCorners (cascadeSplits (1 / 2) 48 (19 / 20) 4 ! 0) 0
           (worldCorners glmMaps (camera exampleZO)) ! 0) \<noteq> nearClip (camera exampleZO)
   \<and> viewDepth glmMaps (camera exampleZO)
        (sliceCorners (cascadeSplits (1 / 2) 48 (19 / 20) 4 ! 0) 0
           (worldCorners glmMaps (camera exampleZO)) ! 4)
       = 48 / 191 + cascadeSplits (1 / 2) 48 (19 / 20) 4 ! 0 * (48 - 48 / 191)
   \<and> - splitDepth (cascades (updateCascades glmMaps 4 exampleZO) ! 0)
       = 1 / 2 + cascadeSplits (1 / 2) 48 (19 / 20) 4 ! 0 * (48 - 1 / 2)
   \<and> viewDepth glmMaps (camera exampleZO)
        (sliceCorners (cascadeSplits (1 / 2) 48 (19 / 20) 4 ! 0) 0
           (worldCorners glmMaps (camera exampleZO)) ! 4)
       \<noteq> - splitDepth (cascades (updateCascades glmMaps 4 exampleZO) ! 0)"
proof -
  let ?t = "cascadeSplits (1 / 2) 48 (19 / 20) 4 ! 0"
  have cam: "camera exampleZO = cameraZO" by (simp add: exampleZO_def)
  have near: "nearClip (camera exampleZO) = 1 / 2" by (simp add: cam cameraZO_def)
  have far: "farClip (camera exampleZO) = 48" by (simp add: cam cameraZO_def)
  have lam: "cascadeSplitLambda exampleZO = 19 / 20" by (simp add: exampleZO_def)
  have start: "viewDepth glmMaps (camera exampleZO)
        (sliceCorners ?t 0 (worldCorners glmMaps (camera exampleZO)) ! 0) = 48 / 191"
    unfolding cam by (rule slice0_depths)
  have stop: "viewDepth glmMaps (camera exampleZO)
        (sliceCorners ?t 0 (worldCorners glmMaps (camera exampleZO)) ! 4)
       = 48 / 191 + ?t * (48 - 48 / 191)"
    unfolding cam by (rule slice0_depths)
  have h1: "(0::nat) < 4" by simp
  have h2: "0 < length (cascades exampleZO)" by (simp add: exampleZO_def)
  have "splitDepth (cascades (updateCascades glmMaps 4 exampleZO) ! 0)
       = - (nearClip (camera exampleZO)
            + cascadeSplits (nearClip (camera exampleZO)) (farClip (camera exampleZO))
                (cascadeSplitLambda exampleZO) 4 ! 0
              * (farClip (camera exampleZO) - nearClip (camera exampleZO)))"
    using h1 h2 by (simp add: cascades_updateCascades_nth cascadeStore_fields)
  then have stored: "- splitDepth (cascades (updateCascades glmMaps 4 exampleZO) ! 0)
       = 1 / 2 + ?t * (48 - 1 / 2)"
    unfolding near far lam by simp
  have apart: "(48 / 191 :: real) \<noteq> 1 / 2" by simp
  have differ: "viewDepth glmMaps (camera exampleZO)
        (sliceCorners ?t 0 (worldCorners glmMaps (camera exampleZO)) ! 0)
      \<noteq> nearClip (camera exampleZO)"
    unfolding start near by (rule apart)
  have "48 / 191 + ?t * (48 - 48 / 191) \<noteq> 1 / 2 + ?t * (48 - 1 / 2)"
    using split0_below_1 by (simp add: algebra_simps)
  then have differ_end: "viewDepth glmMaps (camera exampleZO)
        (sliceCorners ?t 0 (worldCorners glmMaps (camera exampleZO)) ! 4)
       \<noteq> - splitDepth (cascades (updateCascades glmMaps 4 exampleZO) ! 0)"
    unfolding stop stored .
  show ?thesis
    using near far start differ stop stored differ_end by (intro conjI)
qed

text \<open>
  Claim C7. The recomputation is deterministic and idempotent. Two states with the same
  camera, light position and lambda get the same \<open>splitDepth\<close> and \<open>viewProjMatrix\<close>
  in every cascade, whatever the cascades held before and whatever else the states hold;
  and a second run on the result of the first changes nothing. The accumulator starts
  from zero in every run, and no run reads what an earlier one wrote.
\<close>

theorem updateCascades_deterministic:
  assumes "camera s1 = camera s2" and "lightPos s1 = lightPos s2"
    and "cascadeSplitLambda s1 = cascadeSplitLambda s2"
    and "length (cascades s1) = length (cascades s2)"
  shows "map (\<lambda>c. (splitDepth c, viewProjMatrix c)) (take N (cascades (updateCascades G N s1)))
           = map (\<lambda>c. (splitDepth c, viewProjMatrix c)) (take N (cascades (updateCascades G N s2)))
     \<and> updateCascades G N (updateCascades G N s1) = updateCascades G N s1"
proof -
  have "map (\<lambda>c. (splitDepth c, viewProjMatrix c)) (take N (cascades (updateCascades G N s1)))
           = map (\<lambda>c. (splitDepth c, viewProjMatrix c)) (take N (cascades (updateCascades G N s2)))"
  proof (rule nth_equalityI)
    show "length (map (\<lambda>c. (splitDepth c, viewProjMatrix c)) (take N (cascades (updateCascades G N s1))))
        = length (map (\<lambda>c. (splitDepth c, viewProjMatrix c)) (take N (cascades (updateCascades G N s2))))"
      using assms(4) by (simp add: length_cascades_updateCascades)
  next
    fix j
    assume "j < length (map (\<lambda>c. (splitDepth c, viewProjMatrix c))
                 (take N (cascades (updateCascades G N s1))))"
    then have j: "j < N" "j < length (cascades s1)" "j < length (cascades s2)"
      using assms(4) by (simp_all add: length_cascades_updateCascades)
    then show "map (\<lambda>c. (splitDepth c, viewProjMatrix c)) (take N (cascades (updateCascades G N s1))) ! j
        = map (\<lambda>c. (splitDepth c, viewProjMatrix c)) (take N (cascades (updateCascades G N s2))) ! j"
      using assms(1-3)
      by (simp add: length_cascades_updateCascades cascades_updateCascades_nth cascadeStore_fields)
  qed
  then show ?thesis by (simp add: updateCascades_idem)
qed

theorem updateCascades_deterministic_witness:
  "map (\<lambda>c. (splitDepth c, viewProjMatrix c)) (take 4 (cascades (updateCascades glm0 4 example0)))
     = map (\<lambda>c. (splitDepth c, viewProjMatrix c))
         (take 4 (cascades (updateCascades glm0 4
            (example0\<lparr>cascades := map (\<lambda>c. c\<lparr>splitDepth := 5, viewProjMatrix := 6\<rparr>) (cascades example0),
                      debugDisplayReflection := True\<rparr>))))
   \<and> updateCascades glm0 4 (updateCascades glm0 4 example0) = updateCascades glm0 4 example0"
  using updateCascades_deterministic[of example0
      "example0\<lparr>cascades := map (\<lambda>c. c\<lparr>splitDepth := 5, viewProjMatrix := 6\<rparr>) (cascades example0),
                debugDisplayReflection := True\<rparr>" 4 glm0]
  by simp



text \<open>
  Claim C10. The recomputation writes the \<open>splitDepth\<close> and the \<open>viewProjMatrix\<close> of
  the cascades and nothing else: the framebuffer, the image view, the descriptor set and
  the descriptor of every cascade are as before (putting the two old values back gives
  the old record), the array keeps its length, the camera, the light position and the
  lambda are as before, and the rest of the state is untouched.
\<close>

theorem updateCascades_frame:
  "frameBuffer (cascades (updateCascades G N s) ! j) = frameBuffer (cascades s ! j)
   \<and> view (cascades (updateCascades G N s) ! j) = view (cascades s ! j)
   \<and> descriptorSet (cascades (updateCascades G N s) ! j) = descriptorSet (cascades s ! j)
   \<and> descriptor (cascades (updateCascades G N s) ! j) = descriptor (cascades s ! j)
   \<and> (cascades (updateCascades G N s) ! j)
        \<lparr>splitDepth := splitDepth (cascades s ! j),
         viewProjMatrix := viewProjMatrix (cascades s ! j)\<rparr> = cascades s ! j
   \<and> length (cascades (updateCascades G N s)) = length (cascades s)
   \<and> camera (updateCascades G N s) = camera s
   \<and> lightPos (updateCascades G N s) = lightPos s
   \<and> cascadeSplitLambda (updateCascades G N s) = cascadeSplitLambda s
   \<and> updateCascades G N s = s\<lparr>cascades := cascades (updateCascades G N s)\<rparr>"
proof -
  have fields: "frameBuffer (cascades (updateCascades G N s) ! j) = frameBuffer (cascades s ! j)
   \<and> view (cascades (updateCascades G N s) ! j) = view (cascades s ! j)
   \<and> descriptorSet (cascades (updateCascades G N s) ! j) = descriptorSet (cascades s ! j)
   \<and> descriptor (cascades (updateCascades G N s) ! j) = descriptor (cascades s ! j)"
    by (simp add: cascades_updateCascades_nth cascadeStore_fields)
  have restore: "(cascades (updateCascades G N s) ! j)
        \<lparr>splitDepth := splitDepth (cascades s ! j),
         viewProjMatrix := viewProjMatrix (cascades s ! j)\<rparr> = cascades s ! j"
    by (simp add: cascades_updateCascades_nth cascadeStore_restore)
  show ?thesis
    using fields restore length_cascades_updateCascades[of G N s] updateCascades_reads[of G N s]
      updateCascades_writes[of G N s]
    by blast
qed

section \<open>The passes of a recorded frame\<close>

text \<open>
  A block that begins a pass, records commands that neither begin nor end one, and ends
  the pass is one pass with these commands.
\<close>

lemma passes_from_open:
  assumes "\<forall>c \<in> set body. \<not> is_pass_boundary c"
  shows "passes_from (Some (fb, acc)) (body @ CmdEndRenderPass # rest)
           = (fb, acc @ body) # passes_from None rest"
  using assms
proof (induction body arbitrary: acc)
  case Nil
  then show ?case by simp
next
  case (Cons c cs)
  then have c: "\<not> is_pass_boundary c" and cs: "\<forall>c \<in> set cs. \<not> is_pass_boundary c"
    by simp_all
  have "passes_from (Some (fb, acc)) (c # cs @ CmdEndRenderPass # rest)
          = passes_from (Some (fb, acc @ [c])) (cs @ CmdEndRenderPass # rest)"
    using c by (cases c) simp_all
  then show ?case using Cons.IH[OF cs, of "acc @ [c]"] by simp
qed

lemma passes_from_block:
  assumes "\<forall>c \<in> set body. \<not> is_pass_boundary c"
  shows "passes_from None (CmdBeginRenderPass rp fb w h cv # body @ CmdEndRenderPass # rest)
           = (fb, body) # passes_from None rest"
  using passes_from_open[OF assms, of fb "[]" rest] by simp

lemma drawShadowCasters_inner: "\<forall>c \<in> set (drawShadowCasters j). \<not> is_pass_boundary c"
  by (simp add: drawShadowCasters_def)

lemma drawScene_inner: "\<forall>c \<in> set (drawScene G t). \<not> is_pass_boundary c"
  by (simp add: drawScene_def Let_def)

lemma debugDraws_inner: "\<forall>c \<in> set (debugDraws s). \<not> is_pass_boundary c"
  by (auto simp: debugDraws_def)

lemma offscreenBody_inner: "\<forall>c \<in> set (offscreenBody G s t). \<not> is_pass_boundary c"
  using drawScene_inner[of G t] by (simp add: offscreenBody_def)

lemma mainBody_inner: "\<forall>c \<in> set (mainBody G s). \<not> is_pass_boundary c"
  using drawScene_inner[of G sceneDrawTypeDisplay] debugDraws_inner[of s]
  by (auto simp: mainBody_def)

lemma passes_from_drawCSM_passes:
  "passes_from None (concat (map (drawCSM_pass s) js) @ rest)
     = map (\<lambda>j. (frameBuffer (cascades s ! j), drawShadowCasters (of_nat j))) js
       @ passes_from None rest"
proof (induction js)
  case Nil
  then show ?case by simp
next
  case (Cons j js)
  have "passes_from None (concat (map (drawCSM_pass s) (j # js)) @ rest)
      = passes_from None
          (CmdBeginRenderPass (depthPass_renderPass s) (frameBuffer (cascades s ! j))
             SHADOWMAP_DIM SHADOWMAP_DIM [ClearDepthStencil 1 0]
           # drawShadowCasters (of_nat j)
           @ CmdEndRenderPass # (concat (map (drawCSM_pass s) js) @ rest))"
    by (simp add: drawCSM_pass_def)
  also have "\<dots> = (frameBuffer (cascades s ! j), drawShadowCasters (of_nat j))
      # passes_from None (concat (map (drawCSM_pass s) js) @ rest)"
    by (rule passes_from_block[OF drawShadowCasters_inner])
  finally show ?case using Cons.IH by simp
qed

lemma passes_from_offscreenStage:
  "passes_from None (offscreenStage G s fb t @ rest)
     = (fb, offscreenBody G s t) # passes_from None rest"
  unfolding offscreenStage_def append_Cons append_assoc append_Nil
  by (rule passes_from_block[OF offscreenBody_inner])

lemma passes_from_mainStage:
  "passes_from None (mainStage G s i @ rest)
     = (frameBuffers s ! i, mainBody G s) # passes_from None rest"
  unfolding mainStage_def append_Cons append_assoc append_Nil
  by (rule passes_from_block[OF mainBody_inner])

lemma passes_recordFrame:
  "passes (recordFrame G N s i) =
     map (\<lambda>j. (frameBuffer (cascades s ! j), drawShadowCasters (of_nat j))) [0..<N]
     @ [(offscreenPass_refraction_frameBuffer s, offscreenBody G s sceneDrawTypeRefract),
        (offscreenPass_reflection_frameBuffer s, offscreenBody G s sceneDrawTypeReflect),
        (frameBuffers s ! i, mainBody G s)]"
  by (simp add: passes_def recordFrame_def drawCSM_def passes_from_drawCSM_passes
        passes_from_offscreenStage passes_from_mainStage)

lemma is_draw_drawShadowCasters: "filter is_draw (drawShadowCasters j) = [DrawObject heightMap]"
  by (simp add: drawShadowCasters_def)

lemma is_draw_drawScene:
  "filter is_draw (drawScene G t) = [DrawObject models_skysphere, DrawObject heightMap]"
  by (simp add: drawScene_def Let_def)

lemma is_draw_offscreenBody:
  "filter is_draw (offscreenBody G s t) = [DrawObject models_skysphere, DrawObject heightMap]"
  by (simp add: offscreenBody_def is_draw_drawScene)

lemma is_draw_debugDraws:
  "filter is_draw (debugDraws s) = replicate (enabledToggles s) (Draw 6 1 0 0)"
  by (simp add: debugDraws_def enabledToggles_def)

lemma is_draw_mainBody:
  "filter is_draw (mainBody G s) =
     [DrawObject models_skysphere, DrawObject heightMap, DrawObject models_plane]
     @ replicate (enabledToggles s) (Draw 6 1 0 0) @ [DrawUI]"
  by (simp add: mainBody_def is_draw_drawScene is_draw_debugDraws)

lemma quadDraws_mainBody: "quadDraws (mainBody G s) = enabledToggles s"
  by (simp add: quadDraws_def mainBody_def drawScene_def Let_def debugDraws_def
        enabledToggles_def)

lemma commandBuffers_build_nth:
  "i < length (commandBuffers s)
     \<Longrightarrow> commandBuffers (buildCommandBuffers G N s) ! i = recordFrame G N s i"
  by (simp add: buildCommandBuffers_def)

lemma length_buildCommandBuffers:
  "length (commandBuffers (buildCommandBuffers G N s)) = length (commandBuffers s)"
  by (simp add: buildCommandBuffers_def)

subsection \<open>What a recorded frame reads of the state\<close>

lemma recordFrame_cong:
  assumes "\<forall>j. frameBuffer (cascades t ! j) = frameBuffer (cascades s ! j)"
    and "depthPass_renderPass t = depthPass_renderPass s"
    and "offscreenPass_renderPass t = offscreenPass_renderPass s"
    and "offscreenPass_width t = offscreenPass_width s"
    and "offscreenPass_height t = offscreenPass_height s"
    and "offscreenPass_refraction_frameBuffer t = offscreenPass_refraction_frameBuffer s"
    and "offscreenPass_reflection_frameBuffer t = offscreenPass_reflection_frameBuffer s"
    and "renderPass t = renderPass s" and "frameBuffers t = frameBuffers s"
    and "width t = width s" and "height t = height s"
    and "defaultClearColor t = defaultClearColor s"
    and "debugDisplayReflection t = debugDisplayReflection s"
    and "debugDisplayRefraction t = debugDisplayRefraction s"
    and "cascadeDebug_enabled t = cascadeDebug_enabled s"
    and "cascadeDebug_cascadeIndex t = cascadeDebug_cascadeIndex s"
  shows "recordFrame G N t = recordFrame G N s"
proof
  fix i
  have "drawCSM_pass t = drawCSM_pass s"
    using assms(1,2) by (simp add: drawCSM_pass_def fun_eq_iff)
  then have csm: "drawCSM N t = drawCSM N s" by (simp add: drawCSM_def)
  have off: "offscreenStage G t = offscreenStage G s"
    using assms by (simp add: offscreenStage_def offscreenBody_def fun_eq_iff)
  have dbg: "debugDraws t = debugDraws s"
    using assms by (simp add: debugDraws_def)
  have main: "mainStage G t i = mainStage G s i"
    using assms dbg by (simp add: mainStage_def mainBody_def)
  show "recordFrame G N t i = recordFrame G N s i"
    using assms csm off main by (simp add: recordFrame_def)
qed

lemma frameBuffer_updateCascades:
  "frameBuffer (cascades (updateCascades G N s) ! j) = frameBuffer (cascades s ! j)"
  by (simp add: cascades_updateCascades_nth cascadeStore_fields)

lemma recordFrame_updateCascades:
  "recordFrame G N (updateCascades G' N' s) = recordFrame G N s"
  by (rule recordFrame_cong)
     (simp_all add: frameBuffer_updateCascades, simp_all add: updateCascades_def Let_def)

lemma recordFrame_buildCommandBuffers:
  "recordFrame G N (buildCommandBuffers G' N' s) = recordFrame G N s"
  by (rule recordFrame_cong) (simp_all add: buildCommandBuffers_def)

lemma recordFrame_updateUniformBuffers:
  "recordFrame G N (updateUniformBuffers s) = recordFrame G N s"
  by (rule recordFrame_cong) (simp_all add: updateUniformBuffers_def)

lemma recordFrame_lambda:
  "recordFrame G N (s\<lparr>cascadeSplitLambda := v\<rparr>) = recordFrame G N s"
  by (rule recordFrame_cong) simp_all

subsection \<open>The overlay keeps the streams in step with the flags\<close>

lemma streamsBuilt_build:
  "length (commandBuffers s) = n \<Longrightarrow> streamsBuilt G N n (buildCommandBuffers G N s)"
  unfolding streamsBuilt_def recordFrame_buildCommandBuffers
  by (simp add: buildCommandBuffers_def)

lemma lambda_step:
  "commandBuffers (updateUniformBuffers (updateCascades G N (s\<lparr>cascadeSplitLambda := v\<rparr>)))
     = commandBuffers s"
  "toggles (updateUniformBuffers (updateCascades G N (s\<lparr>cascadeSplitLambda := v\<rparr>))) = toggles s"
  "recordFrame G N (updateUniformBuffers (updateCascades G N (s\<lparr>cascadeSplitLambda := v\<rparr>)))
     = recordFrame G N s"
  by (simp_all add: recordFrame_updateUniformBuffers recordFrame_updateCascades recordFrame_lambda)
     (simp_all add: updateUniformBuffers_def updateCascades_def Let_def toggles_def)

lemma rebuiltOrSame_refl: "rebuiltOrSame G N s s"
  by (simp add: rebuiltOrSame_def)

lemma rebuiltOrSame_build:
  "length (commandBuffers t) = length (commandBuffers s)
     \<Longrightarrow> rebuiltOrSame G N s (buildCommandBuffers G N t)"
  using streamsBuilt_build[of t "length (commandBuffers s)" G N]
  by (simp add: rebuiltOrSame_def length_buildCommandBuffers)

lemma rebuiltOrSame_length:
  "rebuiltOrSame G N s t \<Longrightarrow> length (commandBuffers t) = length (commandBuffers s)"
  by (simp add: rebuiltOrSame_def)

lemma rebuiltOrSame_lambda:
  "rebuiltOrSame G N s t
     \<Longrightarrow> rebuiltOrSame G N s
           (updateUniformBuffers (updateCascades G N (t\<lparr>cascadeSplitLambda := v\<rparr>)))"
  by (simp add: rebuiltOrSame_def streamsBuilt_def lambda_step)

lemma rebuiltOrSame_OnUpdateUIOverlay:
  "rebuiltOrSame G N s (OnUpdateUIOverlay G N ui s)"
proof (cases "header_Debugging ui")
  case False
  then show ?thesis by (simp add: OnUpdateUIOverlay_def rebuiltOrSame_refl)
next
  case True
  define s1 where "s1 = (case checkBox_Display_reflection ui of
                     None \<Rightarrow> s
                   | Some v \<Rightarrow> buildCommandBuffers G N (s\<lparr>debugDisplayReflection := v\<rparr>))"
  define s2 where "s2 = (case checkBox_Display_refraction ui of
                     None \<Rightarrow> s1
                   | Some v \<Rightarrow> buildCommandBuffers G N (s1\<lparr>debugDisplayRefraction := v\<rparr>))"
  define s3 where "s3 = (case checkBox_Display_cascades ui of
                     None \<Rightarrow> s2
                   | Some v \<Rightarrow> buildCommandBuffers G N (s2\<lparr>cascadeDebug_enabled := v\<rparr>))"
  define s4 where "s4 = (if cascadeDebug_enabled s3 then
                     (case sliderInt_Cascade ui of
                        None \<Rightarrow> s3
                      | Some v \<Rightarrow> buildCommandBuffers G N (s3\<lparr>cascadeDebug_cascadeIndex := v\<rparr>))
                   else s3)"
  have 1: "rebuiltOrSame G N s s1"
    unfolding s1_def
    by (auto split: option.split intro: rebuiltOrSame_refl rebuiltOrSame_build)
  have 2: "rebuiltOrSame G N s s2"
    unfolding s2_def using 1 rebuiltOrSame_length[OF 1]
    by (auto split: option.split intro: rebuiltOrSame_build)
  have 3: "rebuiltOrSame G N s s3"
    unfolding s3_def using 2 rebuiltOrSame_length[OF 2]
    by (auto split: option.split intro: rebuiltOrSame_build)
  have 4: "rebuiltOrSame G N s s4"
    unfolding s4_def using 3 rebuiltOrSame_length[OF 3]
    by (auto split: option.split intro: rebuiltOrSame_build)
  have "OnUpdateUIOverlay G N ui s = (case sliderFloat_Split_lambda ui of
               None \<Rightarrow> s4
             | Some v \<Rightarrow> updateUniformBuffers (updateCascades G N (s4\<lparr>cascadeSplitLambda := v\<rparr>)))"
    unfolding OnUpdateUIOverlay_def Let_def s4_def s3_def s2_def s1_def
    using True by (simp only: if_True)
  then show ?thesis using 4 by (auto split: option.split intro: rebuiltOrSame_lambda)
qed

section \<open>Properties of the recorded frame\<close>

text \<open>
  Claim C1. Every command stream that \<^verbatim>\<open>buildCommandBuffers\<close> records holds these
  passes, in this order: one shadow pass per cascade index 0 to N - 1, each on that
  cascade's framebuffer, then the refraction pass, then the reflection pass, then the
  main pass on the swapchain framebuffer of the stream. The shadow pass of the cascade
  \<open>j\<close> holds the draw of the shadow casters with the index \<open>j\<close> pushed. The draws of
  the main pass are the
  scene (sky, terrain), the mirror plane, the debug quads that are switched on, and the
  overlay; the overlay is the last command before the pass ends. The stream starts with
  the begin of the command buffer and ends with its end.
\<close>

theorem frame_pass_order:
  assumes "i < length (commandBuffers s)"
  shows "map fst (passes (commandBuffers (buildCommandBuffers G N s) ! i))
           = map (\<lambda>j. frameBuffer (cascades s ! j)) [0..<N]
             @ [offscreenPass_refraction_frameBuffer s, offscreenPass_reflection_frameBuffer s,
                frameBuffers s ! i]
     \<and> take N (passes (commandBuffers (buildCommandBuffers G N s) ! i))
           = map (\<lambda>j. (frameBuffer (cascades s ! j), drawShadowCasters (of_nat j))) [0..<N]
     \<and> map (\<lambda>p. filter is_draw (snd p)) (passes (commandBuffers (buildCommandBuffers G N s) ! i))
           = replicate N [DrawObject heightMap]
             @ [[DrawObject models_skysphere, DrawObject heightMap],
                [DrawObject models_skysphere, DrawObject heightMap],
                [DrawObject models_skysphere, DrawObject heightMap, DrawObject models_plane]
                  @ replicate (enabledToggles s) (Draw 6 1 0 0) @ [DrawUI]]
     \<and> last (snd (last (passes (commandBuffers (buildCommandBuffers G N s) ! i)))) = DrawUI
     \<and> hd (commandBuffers (buildCommandBuffers G N s) ! i) = CbBegin
     \<and> last (commandBuffers (buildCommandBuffers G N s) ! i) = CbEnd"
proof -
  have stream: "commandBuffers (buildCommandBuffers G N s) ! i = recordFrame G N s i"
    using assms by (rule commandBuffers_build_nth)
  have targets: "map fst (passes (recordFrame G N s i))
           = map (\<lambda>j. frameBuffer (cascades s ! j)) [0..<N]
             @ [offscreenPass_refraction_frameBuffer s, offscreenPass_reflection_frameBuffer s,
                frameBuffers s ! i]"
    by (simp add: passes_recordFrame comp_def)
  have "map (\<lambda>j. filter is_draw (drawShadowCasters (of_nat j) :: 'a command list)) [0..<N]
          = replicate N [DrawObject heightMap]"
    by (simp add: is_draw_drawShadowCasters map_replicate_const)
  then have draws: "map (\<lambda>p. filter is_draw (snd p)) (passes (recordFrame G N s i))
           = replicate N [DrawObject heightMap]
             @ [[DrawObject models_skysphere, DrawObject heightMap],
                [DrawObject models_skysphere, DrawObject heightMap],
                [DrawObject models_skysphere, DrawObject heightMap, DrawObject models_plane]
                  @ replicate (enabledToggles s) (Draw 6 1 0 0) @ [DrawUI]]"
    by (simp add: passes_recordFrame comp_def is_draw_offscreenBody is_draw_mainBody)
  have shadow: "take N (passes (recordFrame G N s i))
           = map (\<lambda>j. (frameBuffer (cascades s ! j), drawShadowCasters (of_nat j))) [0..<N]"
    by (simp add: passes_recordFrame)
  have overlay: "last (snd (last (passes (recordFrame G N s i)))) = DrawUI"
    by (simp add: passes_recordFrame mainBody_def)
  have ends: "hd (recordFrame G N s i) = CbBegin \<and> last (recordFrame G N s i) = CbEnd"
    by (simp add: recordFrame_def)
  show ?thesis unfolding stream using targets shadow draws overlay ends by blast
qed

theorem frame_pass_order_witness:
  "(0::nat) < length (commandBuffers example0)
   \<and> map fst (passes (commandBuffers (buildCommandBuffers glm0 4 example0) ! 0))
       = [100, 101, 102, 103, 11, 12, 20]
   \<and> map (\<lambda>p. filter is_draw (snd p)) (passes (commandBuffers (buildCommandBuffers glm0 4 example0) ! 0))
       = [[DrawObject heightMap], [DrawObject heightMap], [DrawObject heightMap],
          [DrawObject heightMap],
          [DrawObject models_skysphere, DrawObject heightMap],
          [DrawObject models_skysphere, DrawObject heightMap],
          [DrawObject models_skysphere, DrawObject heightMap, DrawObject models_plane, DrawUI]]
   \<and> last (snd (last (passes (commandBuffers (buildCommandBuffers glm0 4 example0) ! 0)))) = DrawUI"
proof -
  have h: "(0::nat) < length (commandBuffers example0)" by (simp add: example0_def)
  have fbs: "map (\<lambda>j. frameBuffer (cascades example0 ! j)) [0..<4] = [100, 101, 102, 103]"
    by (simp add: upt_4 example0_def cascade0_def)
  have rest: "offscreenPass_refraction_frameBuffer example0 = 11"
    "offscreenPass_reflection_frameBuffer example0 = 12" "frameBuffers example0 ! 0 = 20"
    "enabledToggles example0 = 0"
    by (simp_all add: example0_def enabledToggles_def)
  have four: "replicate 4 [DrawObject heightMap :: nat command]
      = [[DrawObject heightMap], [DrawObject heightMap], [DrawObject heightMap],
         [DrawObject heightMap]]"
    by (simp add: eval_nat_numeral)
  show ?thesis
    using frame_pass_order[OF h, of glm0 4] h unfolding fbs rest four by simp
qed

text \<open>
  Claim C5. The push-constant block of \<^verbatim>\<open>drawScene\<close> depends on the draw type alone:
  for the refraction the identity scale, the water clip plane and shadows off; for the
  reflection the identity scaled by \<open>(1, -1, 1)\<close>, the same clip plane and shadows off;
  for the display the identity scale, the zero clip plane and shadows on. The sky draw
  and the terrain draw of the call are both issued under that block.
\<close>

theorem drawScene_push_constants:
  "scenePushConst G drawType =
     (case drawType of
        sceneDrawTypeRefract \<Rightarrow>
          \<lparr>scale = mat4_identity G, clipPlane = (0, 1, 0, 0), shadows = 0\<rparr>
      | sceneDrawTypeReflect \<Rightarrow>
          \<lparr>scale = mat4_scale G (mat4_identity G) (1, - 1, 1), clipPlane = (0, 1, 0, 0),
           shadows = 0\<rparr>
      | sceneDrawTypeDisplay \<Rightarrow>
          \<lparr>scale = mat4_identity G, clipPlane = (0, 0, 0, 0), shadows = 1\<rparr>)
   \<and> drawsUnder None (drawScene G drawType) =
       [(DrawObject models_skysphere, Some (PushScene (scenePushConst G drawType))),
        (DrawObject heightMap, Some (PushScene (scenePushConst G drawType)))]"
proof -
  have table: "scenePushConst G drawType =
     (case drawType of
        sceneDrawTypeRefract \<Rightarrow>
          \<lparr>scale = mat4_identity G, clipPlane = (0, 1, 0, 0), shadows = 0\<rparr>
      | sceneDrawTypeReflect \<Rightarrow>
          \<lparr>scale = mat4_scale G (mat4_identity G) (1, - 1, 1), clipPlane = (0, 1, 0, 0),
           shadows = 0\<rparr>
      | sceneDrawTypeDisplay \<Rightarrow>
          \<lparr>scale = mat4_identity G, clipPlane = (0, 0, 0, 0), shadows = 1\<rparr>)"
    by (cases drawType) (simp_all add: scenePushConst_def)
  have both: "drawsUnder None (drawScene G drawType) =
       [(DrawObject models_skysphere, Some (PushScene (scenePushConst G drawType))),
        (DrawObject heightMap, Some (PushScene (scenePushConst G drawType)))]"
    by (simp add: drawScene_def Let_def)
  show ?thesis using table both by (rule conjI)
qed

text \<open>
  Claim C6. When a call of \<^verbatim>\<open>OnUpdateUIOverlay\<close> changes one of the three debug flags,
  it leaves every command buffer holding the stream recorded from the state it returns: the
  whole list is rebuilt within the call. And in every stream that
  \<^verbatim>\<open>buildCommandBuffers\<close> records, the main pass holds as many draws of a six-vertex
  quad as flags are switched on, whatever the scene.
\<close>

theorem debug_toggle_rebuild:
  "(toggles (OnUpdateUIOverlay G N ui s) \<noteq> toggles s \<longrightarrow>
      commandBuffers (OnUpdateUIOverlay G N ui s)
        = map (recordFrame G N (OnUpdateUIOverlay G N ui s)) [0..<length (commandBuffers s)])
   \<and> (\<forall>i<length (commandBuffers s).
        quadDraws (snd (last (passes (commandBuffers (buildCommandBuffers G N s) ! i))))
          = enabledToggles s)"
proof -
  have "rebuiltOrSame G N s (OnUpdateUIOverlay G N ui s)"
    by (rule rebuiltOrSame_OnUpdateUIOverlay)
  then have rebuilt: "toggles (OnUpdateUIOverlay G N ui s) \<noteq> toggles s \<longrightarrow>
      commandBuffers (OnUpdateUIOverlay G N ui s)
        = map (recordFrame G N (OnUpdateUIOverlay G N ui s)) [0..<length (commandBuffers s)]"
    by (auto simp: rebuiltOrSame_def streamsBuilt_def)
  have quads: "\<forall>i<length (commandBuffers s).
        quadDraws (snd (last (passes (commandBuffers (buildCommandBuffers G N s) ! i))))
          = enabledToggles s"
    by (simp add: commandBuffers_build_nth passes_recordFrame quadDraws_mainBody)
  show ?thesis using rebuilt quads by (rule conjI)
qed

theorem debug_toggle_rebuild_witness:
  "toggles (OnUpdateUIOverlay glm0 4
       \<lparr>header_Debugging = True, checkBox_Display_reflection = Some True,
        checkBox_Display_refraction = None, checkBox_Display_cascades = None,
        sliderInt_Cascade = None, sliderFloat_Split_lambda = None\<rparr>
       (example0\<lparr>debugDisplayRefraction := True\<rparr>))
     \<noteq> toggles (example0\<lparr>debugDisplayRefraction := True\<rparr>)
   \<and> commandBuffers (OnUpdateUIOverlay glm0 4
       \<lparr>header_Debugging = True, checkBox_Display_reflection = Some True,
        checkBox_Display_refraction = None, checkBox_Display_cascades = None,
        sliderInt_Cascade = None, sliderFloat_Split_lambda = None\<rparr>
       (example0\<lparr>debugDisplayRefraction := True\<rparr>))
     = map (recordFrame glm0 4 (OnUpdateUIOverlay glm0 4
         \<lparr>header_Debugging = True, checkBox_Display_reflection = Some True,
          checkBox_Display_refraction = None, checkBox_Display_cascades = None,
          sliderInt_Cascade = None, sliderFloat_Split_lambda = None\<rparr>
         (example0\<lparr>debugDisplayRefraction := True\<rparr>))) [0..<2]
   \<and> (1::nat) < length (commandBuffers (example0\<lparr>debugDisplayRefraction := True\<rparr>))
   \<and> quadDraws (snd (last (passes (commandBuffers
        (buildCommandBuffers glm0 4 (example0\<lparr>debugDisplayRefraction := True\<rparr>)) ! 1)))) = 1"
proof -
  let ?ui = "\<lparr>header_Debugging = True, checkBox_Display_reflection = Some True,
        checkBox_Display_refraction = None, checkBox_Display_cascades = None,
        sliderInt_Cascade = None, sliderFloat_Split_lambda = None\<rparr>"
  let ?s = "example0\<lparr>debugDisplayRefraction := True\<rparr>"
  have changed: "toggles (OnUpdateUIOverlay glm0 4 ?ui ?s) \<noteq> toggles ?s"
    by (simp add: OnUpdateUIOverlay_def toggles_def buildCommandBuffers_def example0_def)
  have len: "length (commandBuffers ?s) = 2" by (simp add: example0_def)
  have one: "(1::nat) < length (commandBuffers ?s)" by (simp add: example0_def)
  have on: "enabledToggles ?s = 1" by (simp add: enabledToggles_def example0_def)
  note inst = debug_toggle_rebuild[of glm0 4 ?ui ?s]
  have rebuilt: "commandBuffers (OnUpdateUIOverlay glm0 4 ?ui ?s)
      = map (recordFrame glm0 4 (OnUpdateUIOverlay glm0 4 ?ui ?s)) [0..<2]"
    using inst changed unfolding len by blast
  have quads: "quadDraws (snd (last (passes (commandBuffers (buildCommandBuffers glm0 4 ?s) ! 1)))) = 1"
    using inst one unfolding on by blast
  show ?thesis using changed rebuilt one quads by (intro conjI)
qed

section \<open>Failures while creating the render targets\<close>

text \<open>
  A checked call that fails ends the sequence with its own name, object and result, and
  nothing after it runs.
\<close>

lemma VK_CHECK_RESULT_fails:
  "vkResult drv f tg \<noteq> VK_SUCCESS
     \<Longrightarrow> VK_CHECK_RESULT drv f tg tr = Inl (CheckFailed f tg (vkResult drv f tg))"
  by (simp add: VK_CHECK_RESULT_def Let_def)

lemma seqs_append:
  "seqs (fs @ gs) s = (case seqs fs s of Inl e \<Rightarrow> Inl e | Inr s' \<Rightarrow> seqs gs s')"
  by (induction fs arbitrary: s) (simp_all split: sum.split)

lemma seqs_abort:
  assumes "\<forall>g \<in> set fs. \<forall>s e. g s = Inl e \<longrightarrow> P e" and "seqs fs s = Inl e"
  shows "P e"
  using assms
proof (induction fs arbitrary: s)
  case Nil
  then show ?case by simp
next
  case (Cons g gs)
  show ?case
  proof (cases "g s")
    case (Inl e')
    then have "e' = e" using Cons.prems(2) by simp
    then show ?thesis using Cons.prems(1) Inl by auto
  next
    case (Inr s')
    then have "seqs gs s' = Inl e" using Cons.prems(2) by simp
    then show ?thesis using Cons.IH[of s'] Cons.prems(1) by simp
  qed
qed

lemma VK_CHECK_RESULT_abort:
  "VK_CHECK_RESULT drv f tg tr = Inl e
     \<Longrightarrow> e = CheckFailed f tg (vkResult drv f tg) \<and> vkResult drv f tg \<noteq> VK_SUCCESS"
  by (auto simp: VK_CHECK_RESULT_def Let_def split: if_splits)

text \<open>
  \<^verbatim>\<open>prepareCSM\<close> aborts only through a checked call, with that call identified. The
  depth-format query is not among the reasons.
\<close>

lemma prepareCSM_abort:
  assumes "prepareCSM N drv tr = Inl e"
  shows "\<exists>f tg. e = CheckFailed f tg (vkResult drv f tg) \<and> vkResult drv f tg \<noteq> VK_SUCCESS
           \<and> f \<noteq> getSupportedDepthFormat"
proof -
  let ?P = "\<lambda>e. \<exists>f tg. e = CheckFailed f tg (vkResult drv f tg)
      \<and> vkResult drv f tg \<noteq> VK_SUCCESS \<and> f \<noteq> getSupportedDepthFormat"
  have "\<forall>g \<in> set ([unchecked_getSupportedDepthFormat drv depthPass,
            VK_CHECK_RESULT drv vkCreateRenderPass depthPass,
            VK_CHECK_RESULT drv vkCreateImage depth,
            VK_CHECK_RESULT drv vkAllocateMemory depth,
            VK_CHECK_RESULT drv vkBindImageMemory depth,
            VK_CHECK_RESULT drv vkCreateImageView depth]
           @ concat (map (\<lambda>i. [VK_CHECK_RESULT drv vkCreateImageView (cascade i),
                                 VK_CHECK_RESULT drv vkCreateFramebuffer (cascade i)]) [0..<N])
           @ [VK_CHECK_RESULT drv vkCreateSampler depth]). \<forall>s e. g s = Inl e \<longrightarrow> ?P e"
    by (auto simp: unchecked_getSupportedDepthFormat_def Let_def dest!: VK_CHECK_RESULT_abort)
  then show ?thesis
    using assms unfolding prepareCSM_def by (rule seqs_abort)
qed

text \<open>
  \<^verbatim>\<open>prepareOffscreen\<close> aborts through a checked call, with that call identified, or
  through its assertion on the depth format, in a build that keeps assertions.
\<close>

lemma createFrameBuffer_abort:
  assumes "createFrameBuffer drv tg tr = Inl e"
  shows "\<exists>f tg'. e = CheckFailed f tg' (vkResult drv f tg') \<and> vkResult drv f tg' \<noteq> VK_SUCCESS"
proof -
  have "\<forall>g \<in> set [VK_CHECK_RESULT drv vkCreateImage tg,
           VK_CHECK_RESULT drv vkAllocateMemory tg,
           VK_CHECK_RESULT drv vkBindImageMemory tg,
           VK_CHECK_RESULT drv vkCreateImageView tg]. \<forall>s e. g s = Inl e \<longrightarrow>
        (\<exists>f tg'. e = CheckFailed f tg' (vkResult drv f tg') \<and> vkResult drv f tg' \<noteq> VK_SUCCESS)"
    by (auto dest!: VK_CHECK_RESULT_abort)
  then show ?thesis
    using assms unfolding createFrameBuffer_def by (rule seqs_abort)
qed

lemma prepareOffscreen_abort:
  assumes "prepareOffscreen NDEBUG drv tr = Inl e"
  shows "(\<exists>f tg. e = CheckFailed f tg (vkResult drv f tg) \<and> vkResult drv f tg \<noteq> VK_SUCCESS)
     \<or> (e = AssertionFailed ''validDepthFormat'' \<and> \<not> NDEBUG \<and> \<not> depthFormatSupported drv)"
proof -
  let ?P = "\<lambda>e. (\<exists>f tg. e = CheckFailed f tg (vkResult drv f tg) \<and> vkResult drv f tg \<noteq> VK_SUCCESS)
     \<or> (e = AssertionFailed ''validDepthFormat'' \<and> \<not> NDEBUG \<and> \<not> depthFormatSupported drv)"
  have "\<forall>g \<in> set [assert_validDepthFormat NDEBUG drv offscreenPass,
           VK_CHECK_RESULT drv vkCreateRenderPass offscreenPass,
           VK_CHECK_RESULT drv vkCreateSampler offscreenPass,
           createFrameBuffer drv offscreenPass_refraction,
           createFrameBuffer drv offscreenPass_reflection,
           VK_CHECK_RESULT drv vkCreateImage offscreenPass_depth,
           VK_CHECK_RESULT drv vkAllocateMemory offscreenPass_depth,
           VK_CHECK_RESULT drv vkBindImageMemory offscreenPass_depth,
           VK_CHECK_RESULT drv vkCreateImageView offscreenPass_depth,
           VK_CHECK_RESULT drv vkCreateFramebuffer offscreenPass_refraction,
           VK_CHECK_RESULT drv vkCreateFramebuffer offscreenPass_reflection].
        \<forall>s e. g s = Inl e \<longrightarrow> ?P e"
    by (auto simp: assert_validDepthFormat_def Let_def split: if_splits
          dest!: VK_CHECK_RESULT_abort createFrameBuffer_abort)
  then show ?thesis
    using assms unfolding prepareOffscreen_def by (rule seqs_abort)
qed

text \<open>
  Claim C9. The claim asks that every step of the setup of the offscreen and the shadow
  targets is checked and aborts on failure, the query for a supported depth format
  included. On a device without such a format, on which every creation succeeds,
  \<^verbatim>\<open>prepareOffscreen\<close> (built with assertions) aborts on its assertion, while
  \<^verbatim>\<open>prepareCSM\<close> drops the answer of the same query and runs to its end, creating the
  render pass, the layered image, its views, the framebuffers and the sampler. In a build
  without assertions the two functions in sequence run to the end as well.
\<close>

theorem prepareCSM_ignores_depth_format:
  "depthFormatSupported noDepthFormat = False
   \<and> prepareOffscreen False noDepthFormat [] = Inl (AssertionFailed ''validDepthFormat'')
   \<and> prepareCSM SHADOW_MAP_CASCADE_COUNT noDepthFormat [] =
       Inr [(getSupportedDepthFormat, depthPass), (vkCreateRenderPass, depthPass),
            (vkCreateImage, depth), (vkAllocateMemory, depth), (vkBindImageMemory, depth),
            (vkCreateImageView, depth),
            (vkCreateImageView, cascade 0), (vkCreateFramebuffer, cascade 0),
            (vkCreateImageView, cascade 1), (vkCreateFramebuffer, cascade 1),
            (vkCreateImageView, cascade 2), (vkCreateFramebuffer, cascade 2),
            (vkCreateImageView, cascade 3), (vkCreateFramebuffer, cascade 3),
            (vkCreateSampler, depth)]
   \<and> (\<exists>tr. prepareTargets True SHADOW_MAP_CASCADE_COUNT noDepthFormat [] = Inr tr)"
proof -
  have query: "depthFormatSupported noDepthFormat = False"
    by (simp add: noDepthFormat_def)
  have offscreen: "prepareOffscreen False noDepthFormat [] = Inl (AssertionFailed ''validDepthFormat'')"
    by (simp add: prepareOffscreen_def noDepthFormat_def assert_validDepthFormat_def)
  have csm: "prepareCSM SHADOW_MAP_CASCADE_COUNT noDepthFormat [] =
       Inr [(getSupportedDepthFormat, depthPass), (vkCreateRenderPass, depthPass),
            (vkCreateImage, depth), (vkAllocateMemory, depth), (vkBindImageMemory, depth),
            (vkCreateImageView, depth),
            (vkCreateImageView, cascade 0), (vkCreateFramebuffer, cascade 0),
            (vkCreateImageView, cascade 1), (vkCreateFramebuffer, cascade 1),
            (vkCreateImageView, cascade 2), (vkCreateFramebuffer, cascade 2),
            (vkCreateImageView, cascade 3), (vkCreateFramebuffer, cascade 3),
            (vkCreateSampler, depth)]"
    by (simp add: prepareCSM_def SHADOW_MAP_CASCADE_COUNT_def upt_4 noDepthFormat_def
          VK_CHECK_RESULT_def unchecked_getSupportedDepthFormat_def Let_def)
  have both: "\<exists>tr. prepareTargets True SHADOW_MAP_CASCADE_COUNT noDepthFormat [] = Inr tr"
    by (simp add: prepareTargets_def prepareOffscreen_def createFrameBuffer_def prepareCSM_def
          SHADOW_MAP_CASCADE_COUNT_def upt_4 noDepthFormat_def assert_validDepthFormat_def
          VK_CHECK_RESULT_def unchecked_getSupportedDepthFormat_def Let_def)
  show ?thesis using query offscreen csm both by (intro conjI)
qed

end
